theory Spec2Isabelle
  imports Complex_Main "HOL-Library.Sublist" "HOL-Library.Word"
begin

section \<open>The opendem pipeline (src/opendem/core.py)\<close>

text \<open>
  The class \<^verbatim>\<open>OpenDEM\<close> drives GDAL: it writes a tile-source descriptor, warps it into
  a three-band byte raster under a retry loop, decodes the bytes into elevations, runs a
  terrain derivative, optionally clips and thresholds it, and exports a raster or a
  vector layer.

  GDAL, the file system and the clock are outside the program. They appear here as an
  environment record \<open>env\<close> of functions (what a GDAL call answers) and as a \<open>world\<close>
  record that the program's functions take and return (files written, lines logged,
  the GDAL calls made and the seconds slept, in the order in which they happened, and
  the instance attribute \<^verbatim>\<open>_last_gdal_p\<close>).
  A Python exception is a value \<open>Exn cls msg\<close> on the left of a sum: its class and its
  argument (for a RuntimeError the argument is also what \<^verbatim>\<open>str(e)\<close> gives).

  Pixel values that Python holds as 64-bit floats are modelled as reals. The arithmetic
  of the decoder is exact on floats for byte inputs (every intermediate value is a
  multiple of 1/256 below 2^17), so nothing is lost there. The product in the progress
  callback is not exact on floats, and is rounded as IEEE-754 rounds it. NaN and
  infinities are not modelled. Strings are lists of 8-bit characters.
\<close>

subsection \<open>Exceptions and log lines\<close>

datatype exn = Exn (exn_class: string) (exn_msg: string)

text \<open>\<^verbatim>\<open>except RuntimeError as e\<close>: GDAL's errors are instances of RuntimeError itself.\<close>

definition is_RuntimeError :: "exn \<Rightarrow> bool" where
  "is_RuntimeError e = (exn_class e = ''RuntimeError'')"

text \<open>One constructor for each \<^verbatim>\<open>self.log(...)\<close> line of the source, with its arguments.\<close>

datatype log_event =
    LogInitialized string
  | LogWarpProgress int
  | LogWarpAttempt nat nat
  | LogNetworkGlitch exn
  | LogRetrying
  | LogMaxRetries
  | LogDecoding
  | LogElevationStats real real
  | LogRunning "string option"
  | LogCutline string
  | LogMaskDetected "(string \<times> real) list"
  | LogNoMask
  | LogExportVector string
  | LogExportRaster string
  | LogComplete string

subsection \<open>Rasters, vector layers and files\<close>

datatype gdt = GDT_Byte | GDT_Float32

text \<open>A band's pixels, rows of columns: unsigned bytes or floats.\<close>

datatype band = ByteBand "8 word list list" | FloatBand "real list list"

record raster =
  RasterXSize :: nat
  RasterYSize :: nat
  DataType :: gdt
  Projection :: string
  GeoTransform :: "real list"
  NoDataValue :: "real option"
  bands :: "band list"

record feature =
  dn :: int
  geometry :: "(real \<times> real) list"

record vector_ds =
  layer_name :: string
  layer_srs :: string
  field_name :: string
  features :: "feature list"

datatype artifact = TextFile string | RasterFile raster | VectorFile vector_ds

subsection \<open>Configuration\<close>

text \<open>
  The dictionary that \<^verbatim>\<open>yaml.safe_load\<close> returns, with the value types of the
  documented fields; a key that is missing is \<open>None\<close>. The \<^verbatim>\<open>mask\<close> entry is itself a
  dictionary, kept as an association list of its keys.
\<close>

record config =
  source :: "string option"
  bounds :: "real list option"
  resolution :: "real option"
  process :: "string option"
  output_name :: "string option"
  clipping :: "string option"
  mask :: "(string \<times> real) list option"
  cache_dir_cfg :: "string option"

subsection \<open>GDAL calls and the world\<close>

record warp_options =
  outputBounds :: "real list option"
  outputBoundsSRS :: "string option"
  xRes :: "real option"
  yRes :: "real option"
  dstSRS :: "string option"
  cutlineDSName :: "string option"
  cropToCutline :: bool
  dstNodata :: "real option"
  callback :: bool

text \<open>What the program does to the outside, other than writing files and logging:
  the three GDAL operations it calls, and \<^verbatim>\<open>time.sleep\<close>.\<close>

datatype effect =
    CallWarp string string warp_options
  | CallDEMProcessing string string "string option"
  | CallPolygonize band
  | Sleep nat

record world =
  last_gdal_p :: "int option"
  stdout :: "log_event list"
  files :: "string \<Rightarrow> artifact option"
  effects :: "effect list"

text \<open>
  What the outside answers. \<open>gdal_Warp n dst src opts\<close> is the answer to the warp that
  is made after \<open>n\<close> effects (so the same call can fail at one moment and succeed at a
  later one): the completion fractions it reports to the callback, then an exception or
  the raster it writes. \<open>write_byte\<close> is GDAL's
  conversion of a float written into a byte band.
\<close>

record env =
  abspath :: "string \<Rightarrow> string"
  gdal_Warp :: "nat \<Rightarrow> string \<Rightarrow> string \<Rightarrow> warp_options \<Rightarrow> real list \<times> (exn + raster)"
  gdal_DEMProcessing :: "artifact option \<Rightarrow> string option \<Rightarrow> exn + raster"
  gdal_Polygonize :: "band \<Rightarrow> real list \<times> (exn + feature list)"
  write_byte :: "real \<Rightarrow> 8 word"

record opendem =
  config :: config
  cache_dir :: string

definition log_line :: "log_event \<Rightarrow> world \<Rightarrow> world" where
  "log_line ev w = w\<lparr>stdout := stdout w @ [ev]\<rparr>"

definition sleep :: "nat \<Rightarrow> world \<Rightarrow> world" where
  "sleep secs w = w\<lparr>effects := effects w @ [Sleep secs]\<rparr>"

definition record_call :: "effect \<Rightarrow> world \<Rightarrow> world" where
  "record_call c w = w\<lparr>effects := effects w @ [c]\<rparr>"

definition write_file :: "string \<Rightarrow> artifact \<Rightarrow> world \<Rightarrow> world" where
  "write_file path a w = w\<lparr>files := (files w)(path \<mapsto> a)\<rparr>"

text \<open>\<^verbatim>\<open>os.path.join(dir, name)\<close> for a relative \<open>name\<close>.\<close>

definition path_join :: "string \<Rightarrow> string \<Rightarrow> string" where
  "path_join d name =
     (if d = [] then name
      else if last d = CHR ''/'' then d @ name
      else d @ ''/'' @ name)"

text \<open>\<^verbatim>\<open>self.cache_dir = self.config.get('cache_dir', './cache')\<close> in \<^verbatim>\<open>__init__\<close>.\<close>

definition new_opendem :: "config \<Rightarrow> opendem" where
  "new_opendem cfg =
     \<lparr>config = cfg,
      cache_dir = (case cache_dir_cfg cfg of None \<Rightarrow> ''./cache'' | Some d \<Rightarrow> d)\<rparr>"

text \<open>The world at the start: no file, no line logged, no effect, and an instance
  without the attribute \<^verbatim>\<open>_last_gdal_p\<close>.\<close>

definition fresh_world :: world where
  "fresh_world =
     \<lparr>last_gdal_p = None, stdout = [], files = Map.empty, effects = []\<rparr>"

subsection \<open>\<^verbatim>\<open>progress_callback\<close>\<close>

text \<open>Python's \<^verbatim>\<open>int(x)\<close> on a float truncates towards zero.\<close>

definition py_int :: "real \<Rightarrow> int" where
  "py_int x = (if 0 \<le> x then \<lfloor>x\<rfloor> else \<lceil>x\<rceil>)"

text \<open>
  \<^verbatim>\<open>complete * 100\<close> is a product of two 64-bit floats: the exact product rounded to
  the nearest float, ties to the even significand. \<open>double_round x\<close> is that rounding for
  a real \<open>x\<close> other than 0: with \<open>e = \<lfloor>log 2 \<bar>x\<bar>\<rfloor> - 52\<close>, the integer \<open>x / 2^e\<close> rounded
  half-to-even has 53 bits, and the float is that integer times \<open>2^e\<close>. The exponent is
  not bounded here: a product beyond the largest float (a fraction above 1.79e306, for
  which Python's \<^verbatim>\<open>int\<close> raises OverflowError) is not modelled, and a product in the
  subnormal range is below 1 in magnitude both here and in Python, so that its whole
  percent is 0 either way.
\<close>

definition round_half_even :: "real \<Rightarrow> int" where
  "round_half_even q =
     (let f = \<lfloor>q\<rfloor>; d = q - of_int f
      in if d < 1/2 then f else if 1/2 < d then f + 1 else if even f then f else f + 1)"

definition double_round :: "real \<Rightarrow> real" where
  "double_round x =
     (if x = 0 then 0
      else (let e = \<lfloor>log 2 \<bar>x\<bar>\<rfloor> - 52
            in of_int (round_half_even (x / 2 powr of_int e)) * 2 powr of_int e))"

definition double_mul :: "real \<Rightarrow> real \<Rightarrow> real" where
  "double_mul x y = double_round (x * y)"

text \<open>\<^verbatim>\<open>percent = int(complete * 100)\<close>\<close>

definition percent_of :: "real \<Rightarrow> int" where
  "percent_of fraction = py_int (double_mul fraction 100)"

text \<open>
  \<open>last_gdal_p w = None\<close> is the instance without the attribute (\<^verbatim>\<open>hasattr\<close> false).
  The argument \<^verbatim>\<open>complete\<close> is called \<open>fraction\<close> here; \<^verbatim>\<open>message\<close> and \<^verbatim>\<open>unknown\<close> are not read by the source and are left
  out. The result is the value returned to GDAL and the new world.
\<close>

definition progress_callback :: "real \<Rightarrow> world \<Rightarrow> int \<times> world" where
  "progress_callback fraction w =
     (let percent = percent_of fraction;
          w1 = (if last_gdal_p w = None then w\<lparr>last_gdal_p := Some (- 1)\<rparr> else w);
          w2 = (if percent > the (last_gdal_p w1)
                then (let w' = w1\<lparr>last_gdal_p := Some percent\<rparr>
                      in if percent mod 5 = 0 then log_line (LogWarpProgress percent) w' else w')
                else w1)
      in (1, w2))"

text \<open>GDAL calling the callback once for each fraction it reports, in order.\<close>

fun report_progress :: "real list \<Rightarrow> world \<Rightarrow> world" where
  "report_progress [] w = w"
| "report_progress (c # cs) w = report_progress cs (snd (progress_callback c w))"

subsection \<open>\<^verbatim>\<open>_get_clipping_path\<close> and \<^verbatim>\<open>_generate_vrt\<close>\<close>

text \<open>Python's truth value of an optional string: \<^verbatim>\<open>None\<close> and \<^verbatim>\<open>''\<close> are false.\<close>

definition truthy_str :: "string option \<Rightarrow> bool" where
  "truthy_str p = (case p of None \<Rightarrow> False | Some s \<Rightarrow> s \<noteq> [])"

definition get_clipping_path :: "opendem \<Rightarrow> string option" where
  "get_clipping_path self =
     (let path = clipping (config self)
      in if truthy_str path \<and> prefix ''http'' (the path)
         then Some (''/vsicurl/'' @ the path)
         else path)"

definition is_space :: "char \<Rightarrow> bool" where
  "is_space ch = (ch \<in> set [CHR '' '', CHR 0x09, CHR 0x0A, CHR 0x0B, CHR 0x0C, CHR 0x0D])"

definition py_strip :: "string \<Rightarrow> string" where
  "py_strip s = rev (dropWhile is_space (rev (dropWhile is_space s)))"

definition nl :: string where
  "nl = [CHR 0x0A]"

text \<open>The f-string of \<^verbatim>\<open>_generate_vrt\<close>, line by line.\<close>

definition vrt_content :: "string \<Rightarrow> string \<Rightarrow> string" where
  "vrt_content server_url absolute_cache_path =
     ''<GDAL_WMS>'' @ nl @
     ''    <Service name='' @ [CHR 0x22] @ ''TMS'' @ [CHR 0x22] @ ''>'' @ nl @
     ''        <ServerUrl>'' @ server_url @ ''</ServerUrl>'' @ nl @
     ''    </Service>'' @ nl @
     ''    <DataWindow>'' @ nl @
     ''        <UpperLeftX>-20037508.34</UpperLeftX>'' @ nl @
     ''        <UpperLeftY>20037508.34</UpperLeftY>'' @ nl @
     ''        <LowerRightX>20037508.34</LowerRightX>'' @ nl @
     ''        <LowerRightY>-20037508.34</LowerRightY>'' @ nl @
     ''        <TileLevel>15</TileLevel>'' @ nl @
     ''        <YOrigin>top</YOrigin>'' @ nl @
     ''    </DataWindow>'' @ nl @
     ''    <Projection>EPSG:3857</Projection>'' @ nl @
     ''    <BlockSizeX>256</BlockSizeX>'' @ nl @
     ''    <BlockSizeY>256</BlockSizeY>'' @ nl @
     ''    <BandsCount>3</BandsCount>'' @ nl @
     ''    <Cache><Path>'' @ absolute_cache_path @ ''</Path></Cache>'' @ nl @
     ''</GDAL_WMS>''"

text \<open>
  \<^verbatim>\<open>self.config['source']\<close> raises KeyError when the key is missing; the f-string is
  built before the file is opened, so nothing is written then.
\<close>

definition generate_vrt :: "env \<Rightarrow> opendem \<Rightarrow> world \<Rightarrow> (exn + string) \<times> world" where
  "generate_vrt E self w =
     (let vrt_path = path_join (cache_dir self) ''source.vrt'';
          absolute_cache_path = abspath E (cache_dir self)
      in case source (config self) of
           None \<Rightarrow> (Inl (Exn ''KeyError'' ''source''), w)
         | Some server_url \<Rightarrow>
             (Inr vrt_path,
              write_file vrt_path
                (TextFile (py_strip (vrt_content server_url absolute_cache_path))) w))"

subsection \<open>The warp under retry (first part of \<^verbatim>\<open>run\<close>)\<close>

definition max_retries :: nat where
  "max_retries = 5"

text \<open>\<^verbatim>\<open>"Could not resolve host" in str(e) or "IReadBlock failed" in str(e)\<close>\<close>

definition is_network_glitch :: "exn \<Rightarrow> bool" where
  "is_network_glitch e =
     (sublist ''Could not resolve host'' (exn_msg e) \<or> sublist ''IReadBlock failed'' (exn_msg e))"

definition acquisition_options :: "real list \<Rightarrow> real \<Rightarrow> warp_options" where
  "acquisition_options b r =
     \<lparr>outputBounds = Some b, outputBoundsSRS = Some ''EPSG:4326'',
      xRes = Some r, yRes = Some r, dstSRS = Some ''EPSG:3857'',
      cutlineDSName = None, cropToCutline = False, dstNodata = None, callback = True\<rparr>"

text \<open>
  One \<^verbatim>\<open>gdal.Warp\<close> call: the call is recorded, GDAL reports its progress to the
  callback when one was passed, and then raises or writes the destination.
\<close>

definition do_warp :: "env \<Rightarrow> string \<Rightarrow> string \<Rightarrow> warp_options \<Rightarrow> world \<Rightarrow> (exn + unit) \<times> world" where
  "do_warp E dst src opts w =
     (let answer = gdal_Warp E (length (effects w)) dst src opts;
          w1 = record_call (CallWarp dst src opts) w;
          w2 = (if callback opts then report_progress (fst answer) w1 else w1)
      in case snd answer of
           Inl e \<Rightarrow> (Inl e, w2)
         | Inr ds \<Rightarrow> (Inr (), write_file dst (RasterFile ds) w2))"

text \<open>
  The \<^verbatim>\<open>while attempt < max_retries and not success\<close> loop, with the loop variables as
  arguments. The keyword arguments are evaluated inside the \<^verbatim>\<open>try\<close>, so a missing
  \<^verbatim>\<open>bounds\<close> or \<^verbatim>\<open>resolution\<close> key is a KeyError there, which the handler for
  RuntimeError does not catch.
\<close>

function warp_loop ::
  "env \<Rightarrow> opendem \<Rightarrow> string \<Rightarrow> string \<Rightarrow> nat \<Rightarrow> bool \<Rightarrow> world \<Rightarrow> (exn + unit) \<times> world" where
  "warp_loop E self temp_rgb vrt_path attempt success w =
     (if attempt < max_retries \<and> \<not> success then
        (let w1 = log_line (LogWarpAttempt (attempt + 1) max_retries) w
         in case bounds (config self) of
              None \<Rightarrow> (Inl (Exn ''KeyError'' ''bounds''), w1)
            | Some b \<Rightarrow>
               (case resolution (config self) of
                  None \<Rightarrow> (Inl (Exn ''KeyError'' ''resolution''), w1)
                | Some r \<Rightarrow>
                   (case do_warp E temp_rgb vrt_path (acquisition_options b r) w1 of
                      (Inr u, w2) \<Rightarrow> warp_loop E self temp_rgb vrt_path attempt True w2
                    | (Inl e, w2) \<Rightarrow>
                        if is_RuntimeError e then
                          (if is_network_glitch e then
                             (let w3 = log_line (LogNetworkGlitch e) w2
                              in if attempt + 1 < max_retries
                                 then warp_loop E self temp_rgb vrt_path (attempt + 1) False
                                        (sleep 10 (log_line LogRetrying w3))
                                 else (Inl e, log_line LogMaxRetries w3))
                           else (Inl e, w2))
                        else (Inl e, w2))))
      else (Inr (), w))"
  by pat_completeness auto
termination
  by (relation "measure (\<lambda>(E, self, temp_rgb, vrt_path, attempt, success, w).
        2 * (max_retries - attempt) + (if success then 0 else 1))") auto

declare warp_loop.simps [simp del]

subsection \<open>Reading rasters and numpy arrays\<close>

text \<open>\<^verbatim>\<open>gdal.Open(path)\<close> raises (exceptions are enabled) unless the path holds a raster.\<close>

definition gdal_Open :: "string \<Rightarrow> world \<Rightarrow> exn + raster" where
  "gdal_Open path w =
     (case files w path of
        Some (RasterFile ds) \<Rightarrow> Inr ds
      | _ \<Rightarrow> Inl (Exn ''RuntimeError'' (path @ '': No such file or directory'')))"

text \<open>\<^verbatim>\<open>ds.GetRasterBand(i)\<close>, bands counted from 1.\<close>

definition GetRasterBand :: "raster \<Rightarrow> nat \<Rightarrow> exn + band" where
  "GetRasterBand ds i =
     (if 1 \<le> i \<and> i \<le> length (bands ds) then Inr (bands ds ! (i - 1))
      else Inl (Exn ''RuntimeError'' ''Illegal band #''))"

text \<open>\<^verbatim>\<open>band.ReadAsArray().astype(float)\<close>\<close>

definition astype_float :: "band \<Rightarrow> real list list" where
  "astype_float bd =
     (case bd of
        ByteBand rows \<Rightarrow> map (map (\<lambda>v. real (unat v))) rows
      | FloatBand rows \<Rightarrow> rows)"

text \<open>
  Elementwise numpy operations on two-dimensional arrays. The arrays combined by the
  source always come from bands of one dataset, so their shapes agree.
\<close>

definition arr_map :: "('a \<Rightarrow> 'b) \<Rightarrow> 'a list list \<Rightarrow> 'b list list" where
  "arr_map f a = map (map f) a"

definition arr_map2 :: "('a \<Rightarrow> 'b \<Rightarrow> 'c) \<Rightarrow> 'a list list \<Rightarrow> 'b list list \<Rightarrow> 'c list list" where
  "arr_map2 f a b = map2 (map2 f) a b"

text \<open>\<^verbatim>\<open>np.min\<close> and \<^verbatim>\<open>np.max\<close> raise ValueError on an array without elements.\<close>

definition np_min :: "real list list \<Rightarrow> exn + real" where
  "np_min a =
     (case concat a of
        [] \<Rightarrow> Inl (Exn ''ValueError'' ''zero-size array to reduction operation minimum'')
      | x # xs \<Rightarrow> Inr (fold min xs x))"

definition np_max :: "real list list \<Rightarrow> exn + real" where
  "np_max a =
     (case concat a of
        [] \<Rightarrow> Inl (Exn ''ValueError'' ''zero-size array to reduction operation maximum'')
      | x # xs \<Rightarrow> Inr (fold max xs x))"

subsection \<open>The decoder (second part of \<^verbatim>\<open>run\<close>)\<close>

text \<open>\<^verbatim>\<open>elevation = (r * 256.0 + g + b / 256.0) - 32768.0\<close> on arrays.\<close>

definition decode :: "real list list \<Rightarrow> real list list \<Rightarrow> real list list \<Rightarrow> real list list" where
  "decode r g b =
     arr_map (\<lambda>x. x - 32768)
       (arr_map2 (+) (arr_map2 (+) (arr_map (\<lambda>x. x * 256) r) g) (arr_map (\<lambda>x. x / 256) b))"

subsection \<open>\<^verbatim>\<open>_save_raster\<close> and \<^verbatim>\<open>_save_as_vector\<close>\<close>

text \<open>
  \<^verbatim>\<open>def _save_raster(self, data, source_ds, path, nodata=None)\<close>: the dataset is always
  created with \<^verbatim>\<open>gdal.GDT_Float32\<close>.
\<close>

definition save_raster_params :: "string list" where
  "save_raster_params = [''data'', ''source_ds'', ''path'', ''nodata'']"

definition save_raster :: "band \<Rightarrow> raster \<Rightarrow> string \<Rightarrow> real option \<Rightarrow> world \<Rightarrow> world" where
  "save_raster data source_ds path nodata w =
     write_file path
       (RasterFile
          \<lparr>RasterXSize = RasterXSize source_ds, RasterYSize = RasterYSize source_ds,
           DataType = GDT_Float32,
           Projection = Projection source_ds, GeoTransform = GeoTransform source_ds,
           NoDataValue = nodata,
           bands = [FloatBand (astype_float data)]\<rparr>) w"

text \<open>
  A Python call with keyword arguments raises TypeError, before the body runs, when a
  keyword is not a parameter of the function.
\<close>

definition check_keywords :: "string \<Rightarrow> string list \<Rightarrow> string list \<Rightarrow> exn option" where
  "check_keywords fname params keywords =
     (case filter (\<lambda>k. k \<notin> set params) keywords of
        [] \<Rightarrow> None
      | k # ks \<Rightarrow>
          Some (Exn ''TypeError''
                  (fname @ ''() got an unexpected keyword argument '' @ [CHR 0x27] @ k @ [CHR 0x27])))"

text \<open>\<^verbatim>\<open>band.WriteArray(data)\<close> into a byte band.\<close>

definition write_byte_band :: "env \<Rightarrow> band \<Rightarrow> band" where
  "write_byte_band E data =
     (case data of
        ByteBand rows \<Rightarrow> ByteBand rows
      | FloatBand rows \<Rightarrow> ByteBand (arr_map (write_byte E) rows))"

definition save_as_vector :: "env \<Rightarrow> band \<Rightarrow> raster \<Rightarrow> string \<Rightarrow> world \<Rightarrow> (exn + unit) \<times> world" where
  "save_as_vector E data source_ds output_path w =
     (let bd = write_byte_band E data;
          w1 = (if files w output_path \<noteq> None then w\<lparr>files := (files w)(output_path := None)\<rparr> else w);
          out_datasource = \<lparr>layer_name = ''mask'', layer_srs = Projection source_ds,
                            field_name = ''dn'', features = []\<rparr>;
          w2 = write_file output_path (VectorFile out_datasource) w1;
          answer = gdal_Polygonize E bd;
          w3 = report_progress (fst answer) (record_call (CallPolygonize bd) w2)
      in case snd answer of
           Inl e \<Rightarrow> (Inl e, w3)
         | Inr fs \<Rightarrow>
             (Inr (), write_file output_path (VectorFile (out_datasource\<lparr>features := fs\<rparr>)) w3))"

subsection \<open>\<^verbatim>\<open>_execute_process\<close>\<close>

definition nodata_val :: real where
  "nodata_val = - 9999"

text \<open>\<^verbatim>\<open>if mask_cfg:\<close> is false for a missing key and for an empty dictionary.\<close>

definition truthy_mask :: "(string \<times> real) list option \<Rightarrow> bool" where
  "truthy_mask m = (case m of None \<Rightarrow> False | Some kvs \<Rightarrow> kvs \<noteq> [])"

definition has_key :: "string \<Rightarrow> (string \<times> real) list \<Rightarrow> bool" where
  "has_key k kvs = (map_of kvs k \<noteq> None)"

text \<open>The body of the \<^verbatim>\<open>if mask_cfg:\<close> branch up to \<^verbatim>\<open>.astype(np.uint8)\<close>.\<close>

definition binary_mask :: "(string \<times> real) list \<Rightarrow> real list list \<Rightarrow> 8 word list list" where
  "binary_mask mask_cfg data =
     (let condition = arr_map (\<lambda>x. True) data;
          condition1 = (if has_key ''min'' mask_cfg
                        then arr_map2 (\<and>) condition (arr_map (\<lambda>x. x \<ge> the (map_of mask_cfg ''min'')) data)
                        else condition);
          condition2 = (if has_key ''max'' mask_cfg
                        then arr_map2 (\<and>) condition1 (arr_map (\<lambda>x. x \<le> the (map_of mask_cfg ''max'')) data)
                        else condition1)
      in arr_map (\<lambda>c. if c then 1 else 0)
           (arr_map2 (\<and>) condition2 (arr_map (\<lambda>x. x \<noteq> nodata_val) data)))"

text \<open>Step 3 of \<^verbatim>\<open>_execute_process\<close>: the grid to export, its nodata value and the log line.\<close>

definition decide_mask ::
  "(string \<times> real) list option \<Rightarrow> real list list \<Rightarrow> world \<Rightarrow> (band \<times> real) \<times> world" where
  "decide_mask mask_cfg data w =
     (if truthy_mask mask_cfg
      then ((ByteBand (binary_mask (the mask_cfg) data), 0),
            log_line (LogMaskDetected (the mask_cfg)) w)
      else ((FloatBand data, nodata_val), log_line LogNoMask w))"

text \<open>ASCII lower-casing, which is what \<^verbatim>\<open>str.lower\<close> does to 8-bit characters that can
  take part in the suffix \<^verbatim>\<open>.gpkg\<close>.\<close>

definition lower_char :: "char \<Rightarrow> char" where
  "lower_char ch =
     (if of_char (CHR ''A'') \<le> (of_char ch :: nat) \<and> (of_char ch :: nat) \<le> of_char (CHR ''Z'')
      then char_of (of_char ch + (32::nat)) else ch)"

definition lower :: "string \<Rightarrow> string" where
  "lower s = map lower_char s"

definition is_gpkg :: "string \<Rightarrow> bool" where
  "is_gpkg output_path = suffix ''.gpkg'' (lower output_path)"

text \<open>Step 4 of \<^verbatim>\<open>_execute_process\<close>: GeoTIFF or GPKG.\<close>

definition export ::
  "env \<Rightarrow> opendem \<Rightarrow> band \<Rightarrow> real \<Rightarrow> raster \<Rightarrow> world \<Rightarrow> (exn + unit) \<times> world" where
  "export E self final_data current_nodata ds_proc w =
     (case output_name (config self) of
        None \<Rightarrow> (Inl (Exn ''AttributeError'' ''lower''), w)
      | Some out \<Rightarrow>
          if is_gpkg out then
            (case save_as_vector E final_data ds_proc out (log_line (LogExportVector out) w) of
               (Inl e, w1) \<Rightarrow> (Inl e, w1)
             | (Inr u, w1) \<Rightarrow> (Inr (), log_line (LogComplete out) w1))
          else
            (let w1 = log_line (LogExportRaster out) w;
                 dtype = (if truthy_mask (mask (config self)) then GDT_Byte else GDT_Float32)
             in case check_keywords ''_save_raster'' save_raster_params [''nodata'', ''dtype''] of
                  Some e \<Rightarrow> (Inl e, w1)
                | None \<Rightarrow>
                    (Inr (), log_line (LogComplete out)
                               (save_raster final_data ds_proc out (Some current_nodata) w1))))"

definition execute_process :: "env \<Rightarrow> opendem \<Rightarrow> string \<Rightarrow> world \<Rightarrow> (exn + unit) \<times> world" where
  "execute_process E self dem_path w =
     (let process_type = process (config self);
          clipping_path = get_clipping_path self;
          mask_cfg = mask (config self);
          w1 = log_line (LogRunning process_type) w;
          temp_proc = path_join (cache_dir self) ''temp_proc.tif'';
          w2 = record_call (CallDEMProcessing temp_proc dem_path process_type) w1
      in case gdal_DEMProcessing E (files w1 dem_path) process_type of
           Inl e \<Rightarrow> (Inl e, w2)
         | Inr proc \<Rightarrow>
            (let w3 = write_file temp_proc (RasterFile proc) w2;
                 process_source = (if truthy_str clipping_path
                                   then path_join (cache_dir self) ''final_clipped.tif''
                                   else temp_proc);
                 clipped =
                   (if truthy_str clipping_path
                    then do_warp E process_source temp_proc
                           \<lparr>outputBounds = None, outputBoundsSRS = None, xRes = None, yRes = None,
                            dstSRS = None, cutlineDSName = clipping_path, cropToCutline = True,
                            dstNodata = Some nodata_val, callback = False\<rparr>
                           (log_line (LogCutline (the clipping_path)) w3)
                    else (Inr (), w3))
             in case clipped of
                  (Inl e, w4) \<Rightarrow> (Inl e, w4)
                | (Inr u, w4) \<Rightarrow>
                   (case gdal_Open process_source w4 of
                      Inl e \<Rightarrow> (Inl e, w4)
                    | Inr ds_proc \<Rightarrow>
                       (case GetRasterBand ds_proc 1 of
                          Inl e \<Rightarrow> (Inl e, w4)
                        | Inr b1 \<Rightarrow>
                           (case decide_mask mask_cfg (astype_float b1) w4 of
                              ((final_data, current_nodata), w5) \<Rightarrow>
                                export E self final_data current_nodata ds_proc w5)))))"

subsection \<open>\<^verbatim>\<open>run\<close>\<close>

text \<open>Part 2 of \<^verbatim>\<open>run\<close> (DECODE) and the call of \<^verbatim>\<open>_execute_process\<close>.\<close>

definition decode_and_process :: "env \<Rightarrow> opendem \<Rightarrow> string \<Rightarrow> world \<Rightarrow> (exn + unit) \<times> world" where
  "decode_and_process E self temp_rgb w =
     (let w1 = log_line LogDecoding w
      in case gdal_Open temp_rgb w1 of
           Inl e \<Rightarrow> (Inl e, w1)
         | Inr ds \<Rightarrow>
            (case GetRasterBand ds 1 of
               Inl e \<Rightarrow> (Inl e, w1)
             | Inr b1 \<Rightarrow>
            (case GetRasterBand ds 2 of
               Inl e \<Rightarrow> (Inl e, w1)
             | Inr b2 \<Rightarrow>
            (case GetRasterBand ds 3 of
               Inl e \<Rightarrow> (Inl e, w1)
             | Inr b3 \<Rightarrow>
            (let elevation = decode (astype_float b1) (astype_float b2) (astype_float b3)
             in (case np_min elevation of
                   Inl e \<Rightarrow> (Inl e, w1)
                 | Inr lo \<Rightarrow>
                (case np_max elevation of
                   Inl e \<Rightarrow> (Inl e, w1)
                 | Inr hi \<Rightarrow>
                (let w2 = log_line (LogElevationStats lo hi) w1;
                     base_dem = path_join (cache_dir self) ''base_elevation.tif'';
                     w3 = save_raster (FloatBand elevation) ds base_dem None w2
                 in execute_process E self base_dem w3))))))))"

text \<open>Part 1 of \<^verbatim>\<open>run\<close>: the descriptor and the warp loop; the result is \<^verbatim>\<open>temp_rgb\<close>.\<close>

definition acquire :: "env \<Rightarrow> opendem \<Rightarrow> world \<Rightarrow> (exn + string) \<times> world" where
  "acquire E self w =
     (case generate_vrt E self w of
        (Inl e, w1) \<Rightarrow> (Inl e, w1)
      | (Inr vrt_path, w1) \<Rightarrow>
         (let temp_rgb = path_join (cache_dir self) ''temp_rgb.tif''
          in case warp_loop E self temp_rgb vrt_path 0 False w1 of
               (Inl e, w2) \<Rightarrow> (Inl e, w2)
             | (Inr u, w2) \<Rightarrow> (Inr temp_rgb, w2)))"

definition run :: "env \<Rightarrow> opendem \<Rightarrow> world \<Rightarrow> (exn + unit) \<times> world" where
  "run E self w =
     (case acquire E self w of
        (Inl e, w1) \<Rightarrow> (Inl e, w1)
      | (Inr temp_rgb, w1) \<Rightarrow> decode_and_process E self temp_rgb w1)"

subsection \<open>Observations used in the statements\<close>

text \<open>The value of \<^verbatim>\<open>_last_gdal_p\<close> that the next comparison reads.\<close>

definition last_or :: "world \<Rightarrow> int" where
  "last_or w = (case last_gdal_p w of None \<Rightarrow> - 1 | Some p \<Rightarrow> p)"

text \<open>The percentages logged so far, in order.\<close>

fun progress_of :: "log_event \<Rightarrow> int list" where
  "progress_of (LogWarpProgress p) = [p]"
| "progress_of ev = []"

definition progress_logged :: "world \<Rightarrow> int list" where
  "progress_logged w = concat (map progress_of (stdout w))"

text \<open>The \<^verbatim>\<open>gdal.Warp\<close> calls made so far, in order.\<close>

fun warp_of :: "effect \<Rightarrow> (string \<times> string \<times> warp_options) list" where
  "warp_of (CallWarp dst src opts) = [(dst, src, opts)]"
| "warp_of c = []"

definition warp_calls :: "world \<Rightarrow> (string \<times> string \<times> warp_options) list" where
  "warp_calls w = concat (map warp_of (effects w))"

text \<open>A result that is an exception of the class named.\<close>

definition raises_class :: "string \<Rightarrow> (exn + 'a) \<Rightarrow> bool" where
  "raises_class cls r = (case r of Inl e \<Rightarrow> exn_class e = cls | Inr v \<Rightarrow> False)"

text \<open>
  \<open>evolves P w w'\<close>: the world \<open>w'\<close> comes from \<open>w\<close> by steps that leave the attribute
  and the logged percentages alone, and by calls of the callback with fractions
  satisfying \<open>P\<close>.
\<close>

inductive evolves :: "(real \<Rightarrow> bool) \<Rightarrow> world \<Rightarrow> world \<Rightarrow> bool" for P :: "real \<Rightarrow> bool" and w :: world where
  evolves_refl: "evolves P w w"
| evolves_silent: "evolves P w w1 \<Longrightarrow> last_gdal_p w2 = last_gdal_p w1 \<Longrightarrow>
     progress_logged w2 = progress_logged w1 \<Longrightarrow> evolves P w w2"
| evolves_callback: "evolves P w w1 \<Longrightarrow> P c \<Longrightarrow> evolves P w (snd (progress_callback c w1))"

definition relay_inv :: "world \<Rightarrow> bool" where
  "relay_inv w = (sorted_wrt (<) (progress_logged w) \<and> list_all (\<lambda>p. p \<le> last_or w) (progress_logged w))"

subsection \<open>Exceptions that the engine raises\<close>

text \<open>\<open>engine_raises E e\<close>: some call of a GDAL operation raises \<open>e\<close> in the environment \<open>E\<close>.\<close>

inductive engine_raises :: "env \<Rightarrow> exn \<Rightarrow> bool" for E :: env where
  raises_Warp: "snd (gdal_Warp E n dst src opts) = Inl e \<Longrightarrow> engine_raises E e"
| raises_DEMProcessing: "gdal_DEMProcessing E dem p = Inl e \<Longrightarrow> engine_raises E e"
| raises_Polygonize: "snd (gdal_Polygonize E bd) = Inl e \<Longrightarrow> engine_raises E e"

text \<open>
  The classes of the exceptions that the pipeline's own steps raise: a missing key,
  GDAL failing to open a file or a band, numpy reducing an empty array, \<^verbatim>\<open>None.lower()\<close>
  and the unexpected keyword. Every other exception comes out of a GDAL operation.
\<close>

definition own_classes :: "string list" where
  "own_classes = [''KeyError'', ''RuntimeError'', ''ValueError'', ''AttributeError'', ''TypeError'']"

subsection \<open>Example configurations and engines\<close>

text \<open>
  A configuration with every documented field but \<^verbatim>\<open>clipping\<close> and \<^verbatim>\<open>mask\<close>, and
  variants of it: with a mask, with a vector output and no mask, without \<^verbatim>\<open>source\<close>,
  and with an extent whose minima exceed its maxima and a negative resolution.
\<close>

definition example_cfg :: config where
  "example_cfg =
     \<lparr>source = Some ''https://s3.amazonaws.com/elevation-tiles-prod/terrarium/${z}/${x}/${y}.png'',
      bounds = Some [- 1, 50, 0, 51], resolution = Some 30,
      process = Some ''slope'', output_name = Some ''slope.tif'', clipping = None,
      mask = None, cache_dir_cfg = None\<rparr>"

definition masked_cfg :: config where
  "masked_cfg = example_cfg\<lparr>mask := Some [(''min'', 1)]\<rparr>"

definition gpkg_cfg :: config where
  "gpkg_cfg = example_cfg\<lparr>output_name := Some ''result.gpkg''\<rparr>"

definition no_source_cfg :: config where
  "no_source_cfg = example_cfg\<lparr>source := None\<rparr>"

definition bad_extent_cfg :: config where
  "bad_extent_cfg = example_cfg\<lparr>bounds := Some [1, 51, 0, 50], resolution := Some (- 30)\<rparr>"

text \<open>A warped tile of one pixel with the bytes (128, 0, 0), and its slope raster.\<close>

definition rgb_raster :: raster where
  "rgb_raster =
     \<lparr>RasterXSize = 1, RasterYSize = 1, DataType = GDT_Byte, Projection = ''EPSG:3857'',
      GeoTransform = [0, 30, 0, 0, 0, - 30], NoDataValue = None,
      bands = [ByteBand [[128]], ByteBand [[0]], ByteBand [[0]]]\<rparr>"

definition slope_raster :: raster where
  "slope_raster =
     \<lparr>RasterXSize = 1, RasterYSize = 1, DataType = GDT_Float32, Projection = ''EPSG:3857'',
      GeoTransform = [0, 30, 0, 0, 0, - 30], NoDataValue = Some (- 9999),
      bands = [FloatBand [[5]]]\<rparr>"

text \<open>
  An engine for which every call succeeds, reporting progress of 50% and 100%; one
  whose warp cannot resolve the host; one whose warp finds the disk full; and one whose
  polygon extraction reports a fraction of 2.
\<close>

definition env_online :: env where
  "env_online =
     \<lparr>abspath = (\<lambda>d. ''/home/user/'' @ d),
      gdal_Warp = (\<lambda>n dst src opts. ([1/2, 1], Inr rgb_raster)),
      gdal_DEMProcessing = (\<lambda>dem p. Inr slope_raster),
      gdal_Polygonize = (\<lambda>bd. ([1/2, 1], Inr [\<lparr>dn = 5, geometry = [(0, 0), (30, 0), (30, - 30), (0, - 30)]\<rparr>])),
      write_byte = (\<lambda>x. if x \<le> 0 then 0 else if 255 \<le> x then 255 else of_int \<lfloor>x + 1/2\<rfloor>)\<rparr>"

definition env_offline :: env where
  "env_offline = env_online\<lparr>gdal_Warp :=
     (\<lambda>n dst src opts. ([], Inl (Exn ''RuntimeError'' ''Could not resolve host: s3.amazonaws.com'')))\<rparr>"

definition env_disk_full :: env where
  "env_disk_full = env_online\<lparr>gdal_Warp :=
     (\<lambda>n dst src opts. ([], Inl (Exn ''RuntimeError'' ''No space left on device'')))\<rparr>"

definition env_overshoot :: env where
  "env_overshoot = env_online\<lparr>gdal_Polygonize := (\<lambda>bd. ([2], Inr []))\<rparr>"

section \<open>Properties\<close>

subsection \<open>Rounding to a 64-bit float\<close>

lemma round_half_even_int [simp]: "round_half_even (of_int n) = n"
  by (simp add: round_half_even_def)

lemma round_half_even_numeral [simp]:
  "round_half_even (numeral n) = numeral n"
  "round_half_even (- numeral n) = - numeral n"
  using round_half_even_int [of "numeral n"] round_half_even_int [of "- numeral n"]
  by simp_all

lemma round_half_even_le: "q \<le> of_int N \<Longrightarrow> round_half_even q \<le> N"
proof -
  assume a: "q \<le> of_int N"
  have f: "\<lfloor>q\<rfloor> \<le> N" using a by (simp add: floor_le_iff)
  show ?thesis
  proof (cases "\<lfloor>q\<rfloor> = N")
    case True
    then have "q = of_int N" using a by linarith
    then show ?thesis by simp
  next
    case False
    then have "\<lfloor>q\<rfloor> + 1 \<le> N" using f by simp
    then show ?thesis by (auto simp: round_half_even_def Let_def)
  qed
qed

lemma floor_log2_eq:
  assumes "2 ^ k \<le> x" "x < 2 ^ Suc k"
  shows "\<lfloor>log 2 x\<rfloor> = int k"
proof -
  have pos: "0 < x" using assms(1) zero_less_power [of "2::real" k] by linarith
  have "real k \<le> log 2 x"
    using assms(1) pos by (simp add: le_log_iff powr_realpow)
  moreover have "log 2 x < real k + 1"
    using assms(2) pos by (simp add: log_less_iff powr_realpow powr_add)
  ultimately show ?thesis by (simp add: floor_eq_iff)
qed

text \<open>For \<open>2^k \<le> \<bar>x\<bar> < 2^(k+1)\<close> the float nearest to \<open>x\<close> is a multiple of \<open>2^(k-52)\<close>.\<close>

lemma double_round_eval:
  assumes "2 ^ k \<le> \<bar>x\<bar>" "\<bar>x\<bar> < 2 ^ Suc k" "k \<le> 52"
  shows "double_round x = of_int (round_half_even (x * 2 ^ (52 - k))) / 2 ^ (52 - k)"
proof -
  have "0 < \<bar>x\<bar>" using assms(1) zero_less_power [of "2::real" k] by linarith
  then have nz: "x \<noteq> 0" by simp
  have e: "\<lfloor>log 2 \<bar>x\<bar>\<rfloor> - 52 = - int (52 - k)"
    using floor_log2_eq [OF assms(1,2)] assms(3) by simp
  have p: "(2::real) powr of_int (- int (52 - k)) = 1 / 2 ^ (52 - k)"
    by (simp add: powr_minus powr_realpow inverse_eq_divide)
  show ?thesis
    unfolding double_round_def Let_def e p using nz by simp
qed

lemma double_round_le_100:
  assumes "x \<le> 100"
  shows "double_round x \<le> 100"
proof (cases "0 < x")
  case False
  then have "x \<le> 0" by simp
  show ?thesis
  proof (cases "x = 0")
    case True
    then show ?thesis by (simp add: double_round_def)
  next
    case nz: False
    define p :: real where "p = 2 powr of_int (\<lfloor>log 2 \<bar>x\<bar>\<rfloor> - 52)"
    have p: "0 < p" by (simp add: p_def)
    have "x / p \<le> of_int 0" using \<open>x \<le> 0\<close> p by (simp add: divide_nonpos_pos)
    then have "round_half_even (x / p) \<le> 0" by (rule round_half_even_le)
    then have "of_int (round_half_even (x / p)) * p \<le> 0"
      using p by (simp add: mult_le_0_iff)
    then show ?thesis
      using nz by (simp add: double_round_def Let_def p_def)
  qed
next
  case True
  define E where "E = \<lfloor>log 2 \<bar>x\<bar>\<rfloor> - 52"
  define n where "n = nat (- E)"
  have "log 2 x \<le> log 2 100" using True assms by simp
  also have "\<dots> < 7"
    by (simp add: log_less_iff powr_realpow [of 2 7, simplified])
  finally have "\<lfloor>log 2 x\<rfloor> < 7" by (simp add: floor_less_iff)
  then have E: "E \<le> - 46" using True by (simp add: E_def)
  then have En: "E = - int n" by (simp add: n_def)
  have p: "(2::real) powr of_int E = 1 / 2 ^ n"
    unfolding En by (simp add: powr_minus powr_realpow inverse_eq_divide)
  have n2: "2 \<le> n" using E by (simp add: n_def)
  have "x / (1 / 2 ^ n) \<le> 100 * 2 ^ n" using assms by simp
  also have "\<dots> = of_int (100 * 2 ^ n)" by simp
  finally have "round_half_even (x / (1 / 2 ^ n)) \<le> 100 * 2 ^ n"
    by (rule round_half_even_le)
  then have "of_int (round_half_even (x / (1 / 2 ^ n))) \<le> (100 * 2 ^ n :: real)"
    by (metis (mono_tags) of_int_le_iff of_int_mult of_int_numeral of_int_power)
  then have "of_int (round_half_even (x / (1 / 2 ^ n))) * (1 / 2 ^ n) \<le> (100::real)"
    by (simp add: field_simps)
  moreover have "double_round x =
      of_int (round_half_even (x / 2 powr of_int E)) * 2 powr of_int E"
    using True by (simp add: double_round_def Let_def E_def)
  ultimately show ?thesis
    unfolding p by simp
qed

subsection \<open>The whole percent\<close>

text \<open>
  The float nearest to 0.35 is \<open>6305039478318694 / 2^54\<close>, a little below 0.35. Its
  exact product with 100 is below 35, and the float product is 35: the whole percent
  is 35, as in Python.
\<close>

lemma percent_of_float_035: "percent_of (6305039478318694 / 2 ^ 54) = 35"
proof -
  have "double_round ((6305039478318694 / 2 ^ 54) * 100) = 35"
    by (subst double_round_eval [where k = 5]) (simp_all add: round_half_even_def)
  then show ?thesis
    by (simp add: percent_of_def double_mul_def py_int_def)
qed


lemma percent_of_half: "percent_of (1/2) = 50"
proof -
  have "double_round 50 = 50"
    by (subst double_round_eval [where k = 5]) simp_all
  then show ?thesis
    by (simp add: percent_of_def double_mul_def py_int_def)
qed

lemma percent_of_one: "percent_of 1 = 100"
proof -
  have "double_round 100 = 100"
    by (subst double_round_eval [where k = 6]) simp_all
  then show ?thesis
    by (simp add: percent_of_def double_mul_def py_int_def)
qed

lemma percent_of_two: "percent_of 2 = 200"
proof -
  have "double_round 200 = 200"
    by (subst double_round_eval [where k = 7]) simp_all
  then show ?thesis
    by (simp add: percent_of_def double_mul_def py_int_def)
qed


lemma percent_of_le_100: "c \<le> 1 \<Longrightarrow> percent_of c \<le> 100"
proof -
  assume "c \<le> 1"
  then have "c * 100 \<le> 100" by simp
  then have le: "double_round (c * 100) \<le> 100" by (rule double_round_le_100)
  then have "\<lfloor>double_round (c * 100)\<rfloor> \<le> 100" by (simp add: floor_le_iff)
  moreover have "\<lceil>double_round (c * 100)\<rceil> \<le> 100" using le by (simp add: ceiling_le_iff)
  ultimately show ?thesis by (simp add: percent_of_def double_mul_def py_int_def)
qed

subsection \<open>The progress callback\<close>


lemma progress_callback_last:
  "last_or (snd (progress_callback c w)) = max (last_or w) (percent_of c)"
  by (auto simp: progress_callback_def Let_def last_or_def log_line_def split: option.splits)

lemma progress_callback_stdout:
  "stdout (snd (progress_callback c w)) =
     (if last_or w < percent_of c \<and> percent_of c mod 5 = 0
      then stdout w @ [LogWarpProgress (percent_of c)] else stdout w)"
  by (auto simp: progress_callback_def Let_def last_or_def log_line_def split: option.splits)







subsection \<open>Elementwise array operations\<close>

lemma arr_map_nth:
  "i < length a \<Longrightarrow> j < length (a ! i) \<Longrightarrow> arr_map f a ! i ! j = f (a ! i ! j)"
  by (simp add: arr_map_def)

lemma arr_map_length [simp]: "length (arr_map f a) = length a"
  by (simp add: arr_map_def)

lemma arr_map_row_length [simp]: "i < length a \<Longrightarrow> length (arr_map f a ! i) = length (a ! i)"
  by (simp add: arr_map_def)

lemma arr_map2_length [simp]: "length (arr_map2 f a b) = min (length a) (length b)"
  by (simp add: arr_map2_def)

lemma arr_map2_row_length [simp]:
  "i < length a \<Longrightarrow> i < length b \<Longrightarrow>
   length (arr_map2 f a b ! i) = min (length (a ! i)) (length (b ! i))"
  by (simp add: arr_map2_def)

lemma arr_map2_nth:
  "i < length a \<Longrightarrow> i < length b \<Longrightarrow> j < length (a ! i) \<Longrightarrow> j < length (b ! i) \<Longrightarrow>
   arr_map2 f a b ! i ! j = f (a ! i ! j) (b ! i ! j)"
  by (simp add: arr_map2_def)

subsection \<open>The decoder\<close>

lemma decode_nth:
  assumes "i < length r" "length g = length r" "length b = length r"
    and "j < length (r ! i)" "length (g ! i) = length (r ! i)" "length (b ! i) = length (r ! i)"
  shows "decode r g b ! i ! j = (r ! i ! j * 256 + g ! i ! j + b ! i ! j / 256) - 32768"
  using assms by (simp add: decode_def arr_map_nth arr_map2_nth)

text \<open>
  C1, as the source has it. For three byte bands of one shape, the elevation at pixel
  \<open>(i, j)\<close> is \<open>R * 256 + G + B / 256 - 32768\<close> of the three bytes there. The bytes
  (128, 0, 0) decode to 0 and (0, 0, 0) to -32768; the bytes (255, 255, 255) decode to
  32767 + 255/256 = 32767.996..., which is what the formula gives.
\<close>

theorem decode_pixel_formula:
  assumes "i < length R" "length G = length R" "length B = length R"
    and "j < length (R ! i)" "length (G ! i) = length (R ! i)" "length (B ! i) = length (R ! i)"
  shows "decode (astype_float (ByteBand R)) (astype_float (ByteBand G)) (astype_float (ByteBand B)) ! i ! j =
           real (unat (R ! i ! j)) * 256 + real (unat (G ! i ! j)) + real (unat (B ! i ! j)) / 256 - 32768
         \<and> decode (astype_float (ByteBand [[128]])) (astype_float (ByteBand [[0]])) (astype_float (ByteBand [[0]])) = [[0]]
         \<and> decode (astype_float (ByteBand [[0]])) (astype_float (ByteBand [[0]])) (astype_float (ByteBand [[0]])) = [[- 32768]]
         \<and> decode (astype_float (ByteBand [[255]])) (astype_float (ByteBand [[255]])) (astype_float (ByteBand [[255]])) = [[32767 + 255 / 256]]"
proof -
  have "decode (astype_float (ByteBand R)) (astype_float (ByteBand G)) (astype_float (ByteBand B)) ! i ! j =
           real (unat (R ! i ! j)) * 256 + real (unat (G ! i ! j)) + real (unat (B ! i ! j)) / 256 - 32768"
    using assms by (subst decode_nth) (simp_all add: astype_float_def)
  moreover have "decode (astype_float (ByteBand [[128]])) (astype_float (ByteBand [[0]])) (astype_float (ByteBand [[0]])) = [[0]]"
    by (simp add: decode_def astype_float_def arr_map_def arr_map2_def)
  moreover have "decode (astype_float (ByteBand [[0]])) (astype_float (ByteBand [[0]])) (astype_float (ByteBand [[0]])) = [[- 32768]]"
    by (simp add: decode_def astype_float_def arr_map_def arr_map2_def)
  moreover have "decode (astype_float (ByteBand [[255]])) (astype_float (ByteBand [[255]])) (astype_float (ByteBand [[255]])) = [[32767 + 255 / 256]]"
    by (simp add: decode_def astype_float_def arr_map_def arr_map2_def)
  ultimately show ?thesis by blast
qed

theorem decode_pixel_formula_witness:
  "(0::nat) < length [[1, 2 :: 8 word]] \<and> length [[3, 4 :: 8 word]] = length [[1, 2 :: 8 word]] \<and>
   length [[5, 6 :: 8 word]] = length [[1, 2 :: 8 word]] \<and>
   (1::nat) < length ([[1, 2 :: 8 word]] ! 0) \<and>
   decode (astype_float (ByteBand [[1, 2]])) (astype_float (ByteBand [[3, 4]]))
     (astype_float (ByteBand [[5, 6]])) ! 0 ! 1 = 2 * 256 + 4 + 6 / 256 - 32768"
  using decode_pixel_formula [of 0 "[[1, 2]]" "[[3, 4]]" "[[5, 6]]" 1]
  by simp

text \<open>
  The value that C1 gives for the bytes (255, 255, 255), 65278.996..., is not what the
  decoder computes: the elevation there is below 32768.
\<close>

theorem decode_white_pixel_value:
  "decode (astype_float (ByteBand [[255]])) (astype_float (ByteBand [[255]]))
     (astype_float (ByteBand [[255]])) ! 0 ! 0 = 32767 + 255 / 256 \<and>
   decode (astype_float (ByteBand [[255]])) (astype_float (ByteBand [[255]]))
     (astype_float (ByteBand [[255]])) ! 0 ! 0 < 65278"
  by (simp add: decode_def astype_float_def arr_map_def arr_map2_def)

subsection \<open>The mask\<close>

lemma binary_mask_nth:
  assumes "i < length data" "j < length (data ! i)"
  shows "binary_mask mask_cfg data ! i ! j =
     (if (has_key ''min'' mask_cfg \<longrightarrow> the (map_of mask_cfg ''min'') \<le> data ! i ! j) \<and>
         (has_key ''max'' mask_cfg \<longrightarrow> data ! i ! j \<le> the (map_of mask_cfg ''max'')) \<and>
         data ! i ! j \<noteq> nodata_val
      then 1 else 0)"
proof -
  define lo where "lo = the (map_of mask_cfg ''min'')"
  define hi where "hi = the (map_of mask_cfg ''max'')"
  define kmin where "kmin = has_key ''min'' mask_cfg"
  define kmax where "kmax = has_key ''max'' mask_cfg"
  show ?thesis
    unfolding binary_mask_def Let_def lo_def [symmetric] hi_def [symmetric]
      kmin_def [symmetric] kmax_def [symmetric]
    using assms by (cases kmin; cases kmax) (simp_all add: arr_map_nth arr_map2_nth)
qed

lemma threshold_cases:
  "((a \<noteq> None) \<longrightarrow> the a \<le> (x::real)) \<longleftrightarrow> (\<forall>lo. a = Some lo \<longrightarrow> lo \<le> x)"
  "((b \<noteq> None) \<longrightarrow> x \<le> the b) \<longleftrightarrow> (\<forall>hi. b = Some hi \<longrightarrow> x \<le> hi)"
  by auto

lemma binary_mask_shape:
  "length (binary_mask mask_cfg data) = length data"
  "i < length data \<Longrightarrow> length (binary_mask mask_cfg data ! i) = length (data ! i)"
  by (simp_all add: binary_mask_def Let_def)

text \<open>
  C5, as the source has it. When \<^verbatim>\<open>mask\<close> is a dictionary with at least one key, the
  grid exported is an unsigned 8-bit grid of the shape of the data, with nodata value 0,
  and its pixel \<open>(i, j)\<close> is 1 exactly when the data there is at least \<^verbatim>\<open>min\<close> (if that
  key is given), at most \<^verbatim>\<open>max\<close> (if that key is given) and different from -9999;
  otherwise it is 0.
\<close>

theorem binary_mask_pixel_iff:
  assumes "mask_cfg \<noteq> []" "i < length data" "j < length (data ! i)"
  shows "fst (decide_mask (Some mask_cfg) data w) = (ByteBand (binary_mask mask_cfg data), 0) \<and>
         length (binary_mask mask_cfg data) = length data \<and>
         length (binary_mask mask_cfg data ! i) = length (data ! i) \<and>
         binary_mask mask_cfg data ! i ! j =
           (if (\<forall>lo. map_of mask_cfg ''min'' = Some lo \<longrightarrow> lo \<le> data ! i ! j) \<and>
               (\<forall>hi. map_of mask_cfg ''max'' = Some hi \<longrightarrow> data ! i ! j \<le> hi) \<and>
               data ! i ! j \<noteq> - 9999
            then 1 else 0)"
proof -
  have "fst (decide_mask (Some mask_cfg) data w) = (ByteBand (binary_mask mask_cfg data), 0)"
    using assms(1) by (simp add: decide_mask_def truthy_mask_def)
  moreover have "binary_mask mask_cfg data ! i ! j =
           (if (\<forall>lo. map_of mask_cfg ''min'' = Some lo \<longrightarrow> lo \<le> data ! i ! j) \<and>
               (\<forall>hi. map_of mask_cfg ''max'' = Some hi \<longrightarrow> data ! i ! j \<le> hi) \<and>
               data ! i ! j \<noteq> - 9999
            then 1 else 0)"
    unfolding binary_mask_nth [OF assms(2,3)] has_key_def threshold_cases nodata_val_def ..
  ultimately show ?thesis
    using binary_mask_shape(1) [of mask_cfg data] binary_mask_shape(2) [OF assms(2), of mask_cfg]
    by blast
qed

theorem binary_mask_pixel_iff_witness:
  "[(''min'', 1/10 :: real)] \<noteq> [] \<and> (0::nat) < length [[0, 2, - 9999 :: real]] \<and>
   (1::nat) < length ([[0, 2, - 9999 :: real]] ! 0) \<and>
   fst (decide_mask (Some [(''min'', 1/10)]) [[0, 2, - 9999]] fresh_world) =
     (ByteBand (binary_mask [(''min'', 1/10)] [[0, 2, - 9999]]), 0) \<and>
   binary_mask [(''min'', 1/10)] [[0, 2, - 9999]] ! 0 ! 1 = 1"
  using binary_mask_pixel_iff [of "[(''min'', 1/10)]" 0 "[[0, 2, - 9999]]" 1 fresh_world]
  by simp

text \<open>
  C5 as stated fails for a \<^verbatim>\<open>mask\<close> that is configured as the empty dictionary:
  \<^verbatim>\<open>if mask_cfg:\<close> is false for it, and the Mask Evaluator's output for a pixel of
  value 5 is then the float 5 itself (with nodata -9999), not the byte 1.
\<close>

theorem empty_mask_is_continuous:
  "fst (decide_mask (Some []) [[5]] fresh_world) = (FloatBand [[5]], - 9999) \<and>
   fst (fst (decide_mask (Some []) [[5]] fresh_world)) \<noteq> ByteBand [[1]]"
  by (simp add: decide_mask_def truthy_mask_def nodata_val_def)

text \<open>
  C6. For one grid and one value of \<^verbatim>\<open>min\<close>, the mask computed with only \<^verbatim>\<open>min\<close>
  configured is, at every pixel, at least the mask computed with \<^verbatim>\<open>min\<close> and \<^verbatim>\<open>max\<close>
  configured: a pixel that is 1 under both thresholds is 1 under \<^verbatim>\<open>min\<close> alone.
\<close>

theorem binary_mask_min_only_superset:
  assumes "map_of m1 ''min'' = Some lo" "map_of m1 ''max'' = None"
    and "map_of m2 ''min'' = Some lo" "map_of m2 ''max'' = Some hi"
    and "i < length data" "j < length (data ! i)"
  shows "binary_mask m2 data ! i ! j \<le> binary_mask m1 data ! i ! j \<and>
         (binary_mask m2 data ! i ! j = 1 \<longrightarrow> binary_mask m1 data ! i ! j = 1)"
  unfolding binary_mask_nth [OF assms(5,6)] has_key_def assms(1-4) by simp

theorem binary_mask_min_only_superset_witness:
  "map_of [(''min'', 1/10 :: real)] ''min'' = Some (1/10) \<and>
   map_of [(''min'', 1/10 :: real)] ''max'' = None \<and>
   map_of [(''min'', 1/10), (''max'', 3 :: real)] ''min'' = Some (1/10) \<and>
   map_of [(''min'', 1/10), (''max'', 3 :: real)] ''max'' = Some 3 \<and>
   (0::nat) < length [[0, 2, 5 :: real]] \<and> (2::nat) < length ([[0, 2, 5 :: real]] ! 0) \<and>
   binary_mask [(''min'', 1/10), (''max'', 3)] [[0, 2, 5]] ! 0 ! 2
     \<le> binary_mask [(''min'', 1/10)] [[0, 2, 5]] ! 0 ! 2"
  using binary_mask_min_only_superset
    [of "[(''min'', 1/10)]" "1/10" "[(''min'', 1/10), (''max'', 3)]" 3 0 "[[0, 2, 5]]" 2]
  by simp

subsection \<open>What the primitive steps change\<close>

lemma log_line_simps [simp]:
  "stdout (log_line ev w) = stdout w @ [ev]" "effects (log_line ev w) = effects w"
  "files (log_line ev w) = files w" "last_gdal_p (log_line ev w) = last_gdal_p w"
  by (simp_all add: log_line_def)

lemma sleep_simps [simp]:
  "stdout (sleep n w) = stdout w" "effects (sleep n w) = effects w @ [Sleep n]"
  "files (sleep n w) = files w" "last_gdal_p (sleep n w) = last_gdal_p w"
  by (simp_all add: sleep_def)

lemma record_call_simps [simp]:
  "stdout (record_call c w) = stdout w" "effects (record_call c w) = effects w @ [c]"
  "files (record_call c w) = files w" "last_gdal_p (record_call c w) = last_gdal_p w"
  by (simp_all add: record_call_def)

lemma write_file_simps [simp]:
  "stdout (write_file p a w) = stdout w" "effects (write_file p a w) = effects w"
  "files (write_file p a w) = (files w)(p \<mapsto> a)"
  "last_gdal_p (write_file p a w) = last_gdal_p w"
  by (simp_all add: write_file_def)

lemma progress_callback_frame [simp]:
  "effects (snd (progress_callback c w)) = effects w"
  "files (snd (progress_callback c w)) = files w"
  by (simp_all add: progress_callback_def Let_def)

lemma report_progress_frame [simp]:
  "effects (report_progress cs w) = effects w"
  "files (report_progress cs w) = files w"
  by (induction cs arbitrary: w) simp_all

lemma save_raster_simps [simp]:
  "stdout (save_raster d ds p n w) = stdout w" "effects (save_raster d ds p n w) = effects w"
  "last_gdal_p (save_raster d ds p n w) = last_gdal_p w"
  by (simp_all add: save_raster_def)

lemma do_warp_effects:
  "effects (snd (do_warp E dst src opts w)) = effects w @ [CallWarp dst src opts]"
  by (simp add: do_warp_def Let_def split: sum.splits)

lemma do_warp_result:
  "fst (do_warp E dst src opts w) =
     (case snd (gdal_Warp E (length (effects w)) dst src opts) of
        Inl e \<Rightarrow> Inl e | Inr ds \<Rightarrow> Inr ())"
  by (simp add: do_warp_def Let_def split: sum.splits)

lemma do_warp_snd: "do_warp E d s opts w1 = (x, w2) \<Longrightarrow> w2 = snd (do_warp E d s opts w1)"
  by simp

lemma do_warp_error:
  "do_warp E d s opts w = (Inl e, w2) \<Longrightarrow> engine_raises E e"
  using do_warp_result [of E d s opts w]
  by (auto split: sum.splits intro: raises_Warp)

lemma warp_calls_effects: "effects w2 = effects w1 @ es \<Longrightarrow>
  warp_calls w2 = warp_calls w1 @ concat (map warp_of es)"
  by (simp add: warp_calls_def)

subsection \<open>The source descriptor\<close>

text \<open>
  C8, as the source has it. When the configuration has no \<^verbatim>\<open>source\<close> key,
  \<^verbatim>\<open>_generate_vrt\<close> raises KeyError for that key and leaves the world as it was: no
  file is written. The run ends with the same exception, before any GDAL call.
\<close>

theorem generate_vrt_source_absent:
  assumes "source (config self) = None"
  shows "generate_vrt E self w = (Inl (Exn ''KeyError'' ''source''), w) \<and>
         run E self w = (Inl (Exn ''KeyError'' ''source''), w)"
  using assms by (simp add: generate_vrt_def run_def acquire_def Let_def)

theorem generate_vrt_source_absent_witness:
  "source (config (new_opendem no_source_cfg)) = None \<and>
   generate_vrt env_online (new_opendem no_source_cfg) fresh_world =
     (Inl (Exn ''KeyError'' ''source''), fresh_world) \<and>
   files fresh_world (path_join (cache_dir (new_opendem no_source_cfg)) ''source.vrt'') = None"
  using generate_vrt_source_absent [of "new_opendem no_source_cfg" env_online fresh_world]
  by (simp add: new_opendem_def no_source_cfg_def example_cfg_def fresh_world_def)

text \<open>
  C8 as stated names the class ConfigurationError. The exception that is raised for a
  configuration without \<^verbatim>\<open>source\<close> is of class KeyError.
\<close>

theorem source_absent_is_KeyError:
  "raises_class ''KeyError'' (fst (generate_vrt env_online (new_opendem no_source_cfg) fresh_world)) \<and>
   \<not> raises_class ''ConfigurationError''
       (fst (generate_vrt env_online (new_opendem no_source_cfg) fresh_world))"
  by (simp add: generate_vrt_def new_opendem_def no_source_cfg_def example_cfg_def
      raises_class_def Let_def)

subsection \<open>The warp under retry\<close>

lemma glitch_offline:
  "is_network_glitch (Exn ''RuntimeError'' ''Could not resolve host: s3.amazonaws.com'')"
  by (simp add: is_network_glitch_def sublist_code(3))

lemma glitch_disk: "\<not> is_network_glitch (Exn ''RuntimeError'' ''No space left on device'')"
  by (simp add: is_network_glitch_def sublist_code(3))

lemma callback_acquisition: "callback (acquisition_options b r)"
  by (simp add: acquisition_options_def)

lemma warp_loop_snd:
  "warp_loop E self t v a s w1 = (x, w2) \<Longrightarrow> w2 = snd (warp_loop E self t v a s w1)"
  by simp

lemma warp_loop_done:
  "success \<or> \<not> attempt < max_retries \<Longrightarrow> warp_loop E self t v attempt success w = (Inr (), w)"
  by (subst warp_loop.simps) auto

lemma warp_loop_missing_key:
  assumes "bounds (config self) = None \<or> resolution (config self) = None"
    and "attempt < max_retries"
  shows "effects (snd (warp_loop E self t v attempt False w)) = effects w \<and>
         raises_class ''KeyError'' (fst (warp_loop E self t v attempt False w))"
  using assms
  by (subst (1 2) warp_loop.simps) (auto simp: Let_def raises_class_def split: option.splits)

text \<open>One turn of the loop, for a configuration that has the two keys.\<close>

lemma warp_loop_unfold:
  assumes cfg: "bounds (config self) = Some b" "resolution (config self) = Some r"
    and att: "attempt < max_retries"
    and dw: "do_warp E t v (acquisition_options b r)
      (log_line (LogWarpAttempt (Suc attempt) max_retries) w) = (x, w2)"
  shows "warp_loop E self t v attempt False w =
     (case x of
        Inr u \<Rightarrow> (Inr (), w2)
      | Inl e \<Rightarrow>
          if is_RuntimeError e \<and> is_network_glitch e
          then (if Suc attempt < max_retries
                then warp_loop E self t v (Suc attempt) False
                       (sleep 10 (log_line LogRetrying (log_line (LogNetworkGlitch e) w2)))
                else (Inl e, log_line LogMaxRetries (log_line (LogNetworkGlitch e) w2)))
          else (Inl e, w2))"
  by (subst warp_loop.simps) (simp add: cfg att Let_def dw warp_loop_done split: sum.splits)

lemma warp_loop_glitch_step:
  assumes cfg: "bounds (config self) = Some b" "resolution (config self) = Some r"
    and att: "attempt < max_retries"
    and ans: "snd (gdal_Warp E (length (effects w)) t v (acquisition_options b r)) = Inl e"
    and cls: "is_RuntimeError e" "is_network_glitch e"
  shows "\<exists>w2. effects w2 = effects w @ [CallWarp t v (acquisition_options b r)] \<and>
           warp_loop E self t v attempt False w =
             (if Suc attempt < max_retries
              then warp_loop E self t v (Suc attempt) False (sleep 10 (log_line LogRetrying w2))
              else (Inl e, log_line LogMaxRetries w2))"
proof -
  let ?w1 = "log_line (LogWarpAttempt (Suc attempt) max_retries) w"
  obtain x w2 where dw: "do_warp E t v (acquisition_options b r) ?w1 = (x, w2)"
    by (cases "do_warp E t v (acquisition_options b r) ?w1")
  have x: "x = Inl e"
    using do_warp_result [of E t v "acquisition_options b r" ?w1] dw ans by simp
  have fr: "effects w2 = effects w @ [CallWarp t v (acquisition_options b r)]"
    using do_warp_effects [of E t v "acquisition_options b r" ?w1] dw by simp
  have "warp_loop E self t v attempt False w =
             (if Suc attempt < max_retries
              then warp_loop E self t v (Suc attempt) False
                     (sleep 10 (log_line LogRetrying (log_line (LogNetworkGlitch e) w2)))
              else (Inl e, log_line LogMaxRetries (log_line (LogNetworkGlitch e) w2)))"
    unfolding warp_loop_unfold [OF cfg att dw] by (simp add: x cls)
  then show ?thesis
    using fr by (intro exI [of _ "log_line (LogNetworkGlitch e) w2"]) simp
qed

text \<open>
  When every attempt meets a network glitch, the loop that starts at \<open>attempt\<close> with
  \<open>k + 1\<close> attempts left makes \<open>k + 1\<close> warps with a sleep of 10 seconds after each but
  the last, and ends with the exception of the last warp.
\<close>

lemma warp_loop_always_glitch:
  assumes cfg: "bounds (config self) = Some b" "resolution (config self) = Some r"
    and AG: "\<forall>n. \<exists>e. snd (gdal_Warp E n t v (acquisition_options b r)) = Inl e \<and>
               is_RuntimeError e \<and> is_network_glitch e"
  shows "attempt + Suc k = max_retries \<Longrightarrow>
     effects (snd (warp_loop E self t v attempt False w)) =
       effects w @ concat (replicate k [CallWarp t v (acquisition_options b r), Sleep 10])
         @ [CallWarp t v (acquisition_options b r)] \<and>
     (\<exists>e. fst (warp_loop E self t v attempt False w) = Inl e \<and>
          snd (gdal_Warp E (length (effects w) + 2 * k) t v (acquisition_options b r)) = Inl e) \<and>
     last (stdout (snd (warp_loop E self t v attempt False w))) = LogMaxRetries"
proof (induction k arbitrary: attempt w)
  case 0
  obtain e where e: "snd (gdal_Warp E (length (effects w)) t v (acquisition_options b r)) = Inl e"
      "is_RuntimeError e" "is_network_glitch e"
    using AG by blast
  from 0 have att: "attempt < max_retries" "\<not> Suc attempt < max_retries" by simp_all
  from warp_loop_glitch_step [OF cfg att(1) e] att(2) e(1)
  show ?case by auto
next
  case (Suc k)
  obtain e where e: "snd (gdal_Warp E (length (effects w)) t v (acquisition_options b r)) = Inl e"
      "is_RuntimeError e" "is_network_glitch e"
    using AG by blast
  from Suc.prems have att: "attempt < max_retries" "Suc attempt < max_retries" by simp_all
  from warp_loop_glitch_step [OF cfg att(1) e] att(2)
  obtain w2 where w2: "effects w2 = effects w @ [CallWarp t v (acquisition_options b r)]"
      "warp_loop E self t v attempt False w =
         warp_loop E self t v (Suc attempt) False (sleep 10 (log_line LogRetrying w2))"
    by auto
  have "Suc attempt + Suc k = max_retries" using Suc.prems by simp
  note IH = Suc.IH [OF this, of "sleep 10 (log_line LogRetrying w2)"]
  show ?case
    unfolding w2(2) using IH by (simp add: w2(1))
qed

lemma warp_loop_other_error:
  assumes cfg: "bounds (config self) = Some b" "resolution (config self) = Some r"
    and att: "attempt < max_retries"
    and ans: "snd (gdal_Warp E (length (effects w)) t v (acquisition_options b r)) = Inl e"
    and cls: "\<not> (is_RuntimeError e \<and> is_network_glitch e)"
  shows "fst (warp_loop E self t v attempt False w) = Inl e \<and>
         effects (snd (warp_loop E self t v attempt False w)) =
           effects w @ [CallWarp t v (acquisition_options b r)]"
proof -
  let ?w1 = "log_line (LogWarpAttempt (Suc attempt) max_retries) w"
  obtain x w2 where dw: "do_warp E t v (acquisition_options b r) ?w1 = (x, w2)"
    by (cases "do_warp E t v (acquisition_options b r) ?w1")
  have x: "x = Inl e"
    using do_warp_result [of E t v "acquisition_options b r" ?w1] dw ans by simp
  have fr: "effects w2 = effects w @ [CallWarp t v (acquisition_options b r)]"
    using do_warp_effects [of E t v "acquisition_options b r" ?w1] dw by simp
  show ?thesis
    unfolding warp_loop_unfold [OF cfg att dw] by (simp add: x cls fr)
qed

lemma warp_loop_first_success:
  assumes cfg: "bounds (config self) = Some b" "resolution (config self) = Some r"
    and ans: "gdal_Warp E (length (effects w)) t v (acquisition_options b r) = (cs, Inr ds)"
  shows "warp_loop E self t v 0 False w =
     (Inr (), write_file t (RasterFile ds)
        (report_progress cs (record_call (CallWarp t v (acquisition_options b r))
           (log_line (LogWarpAttempt 1 max_retries) w))))"
proof -
  have att: "0 < max_retries" by (simp add: max_retries_def)
  have dw: "do_warp E t v (acquisition_options b r) (log_line (LogWarpAttempt (Suc 0) max_retries) w) =
      (Inr (), write_file t (RasterFile ds)
        (report_progress cs (record_call (CallWarp t v (acquisition_options b r))
           (log_line (LogWarpAttempt 1 max_retries) w))))"
    by (simp add: do_warp_def Let_def ans callback_acquisition)
  show ?thesis
    unfolding warp_loop_unfold [OF cfg att dw] by simp
qed

text \<open>The acquisition step: the descriptor changes no effect, and then the loop runs.\<close>

lemma acquire_unfold:
  assumes "source (config self) = Some s"
  shows "\<exists>w1. effects w1 = effects w \<and> stdout w1 = stdout w \<and>
           acquire E self w =
             (case warp_loop E self (path_join (cache_dir self) ''temp_rgb.tif'')
                     (path_join (cache_dir self) ''source.vrt'') 0 False w1 of
                (Inl e, w2) \<Rightarrow> (Inl e, w2)
              | (Inr u, w2) \<Rightarrow> (Inr (path_join (cache_dir self) ''temp_rgb.tif''), w2))"
  using assms
  by (intro exI [of _ "snd (generate_vrt E self w)"])
     (simp add: acquire_def generate_vrt_def Let_def)

lemma acquire_fst_snd:
  assumes "acquire E self w =
             (case warp_loop E self t v 0 False w1 of
                (Inl e, w2) \<Rightarrow> (Inl e, w2)
              | (Inr u, w2) \<Rightarrow> (Inr t, w2))"
  shows "snd (acquire E self w) = snd (warp_loop E self t v 0 False w1)"
    and "fst (acquire E self w) =
           (case fst (warp_loop E self t v 0 False w1) of Inl e \<Rightarrow> Inl e | Inr u \<Rightarrow> Inr t)"
  unfolding assms by (simp_all split: prod.splits sum.splits)

lemma run_acquire_error:
  "fst (acquire E self w) = Inl e \<Longrightarrow> run E self w = (Inl e, snd (acquire E self w))"
  by (cases "acquire E self w") (simp add: run_def)

lemma acquire_always_glitch:
  assumes cfg: "source (config self) = Some s" "bounds (config self) = Some b"
      "resolution (config self) = Some r"
    and t: "t = path_join (cache_dir self) ''temp_rgb.tif''"
    and v: "v = path_join (cache_dir self) ''source.vrt''"
    and AG: "\<forall>n. \<exists>e. snd (gdal_Warp E n t v (acquisition_options b r)) = Inl e \<and>
               is_RuntimeError e \<and> is_network_glitch e"
  shows "effects (snd (acquire E self w)) =
           effects w @ concat (replicate 4 [CallWarp t v (acquisition_options b r), Sleep 10])
             @ [CallWarp t v (acquisition_options b r)]"
    and "\<exists>e. fst (acquire E self w) = Inl e \<and>
          snd (gdal_Warp E (length (effects w) + 8) t v (acquisition_options b r)) = Inl e"
    and "last (stdout (snd (acquire E self w))) = LogMaxRetries"
proof -
  from acquire_unfold [OF cfg(1), of w E]
  obtain w1 where w1: "effects w1 = effects w"
    and acq: "acquire E self w =
       (case warp_loop E self t v 0 False w1 of
          (Inl e, w2) \<Rightarrow> (Inl e, w2) | (Inr u, w2) \<Rightarrow> (Inr t, w2))"
    unfolding t v by blast
  have "0 + Suc 4 = max_retries" by (simp add: max_retries_def)
  note L = warp_loop_always_glitch [OF cfg(2,3) AG this, where w = w1]
  show "effects (snd (acquire E self w)) =
           effects w @ concat (replicate 4 [CallWarp t v (acquisition_options b r), Sleep 10])
             @ [CallWarp t v (acquisition_options b r)]"
    unfolding acquire_fst_snd(1) [OF acq] using L w1 by simp
  show "\<exists>e. fst (acquire E self w) = Inl e \<and>
          snd (gdal_Warp E (length (effects w) + 8) t v (acquisition_options b r)) = Inl e"
    unfolding acquire_fst_snd(2) [OF acq] using L w1 by auto
  show "last (stdout (snd (acquire E self w))) = LogMaxRetries"
    unfolding acquire_fst_snd(1) [OF acq] using L by simp
qed

lemma acquire_other_error:
  assumes cfg: "source (config self) = Some s" "bounds (config self) = Some b"
      "resolution (config self) = Some r"
    and t: "t = path_join (cache_dir self) ''temp_rgb.tif''"
    and v: "v = path_join (cache_dir self) ''source.vrt''"
    and ans: "snd (gdal_Warp E (length (effects w)) t v (acquisition_options b r)) = Inl e"
    and cls: "\<not> (is_RuntimeError e \<and> is_network_glitch e)"
  shows "fst (acquire E self w) = Inl e"
    and "effects (snd (acquire E self w)) = effects w @ [CallWarp t v (acquisition_options b r)]"
proof -
  from acquire_unfold [OF cfg(1), of w E]
  obtain w1 where w1: "effects w1 = effects w"
    and acq: "acquire E self w =
       (case warp_loop E self t v 0 False w1 of
          (Inl e, w2) \<Rightarrow> (Inl e, w2) | (Inr u, w2) \<Rightarrow> (Inr t, w2))"
    unfolding t v by blast
  have att: "0 < max_retries" by (simp add: max_retries_def)
  have ans1: "snd (gdal_Warp E (length (effects w1)) t v (acquisition_options b r)) = Inl e"
    using ans w1 by simp
  note L = warp_loop_other_error [OF cfg(2,3) att ans1 cls]
  show "fst (acquire E self w) = Inl e"
    unfolding acquire_fst_snd(2) [OF acq] using L by simp
  show "effects (snd (acquire E self w)) = effects w @ [CallWarp t v (acquisition_options b r)]"
    unfolding acquire_fst_snd(1) [OF acq] using L w1 by simp
qed

text \<open>
  C2, as the source has it. Take a configuration with \<^verbatim>\<open>source\<close>, \<^verbatim>\<open>bounds\<close> and
  \<^verbatim>\<open>resolution\<close>; \<open>W\<close> is the warp call of the acquisition step.

  If every warp raises a RuntimeError whose message contains one of the two network
  signatures, the acquisition step does exactly this to the outside: warp, sleep 10,
  warp, sleep 10, warp, sleep 10, warp, sleep 10, warp (five attempts, four delays).
  It then logs that the maximum of retries is reached and re-raises the exception of
  the fifth warp, a RuntimeError, which also ends the run.

  If the first warp raises any other exception, the acquisition step makes that one
  warp and no sleep, and the exception ends the step and the run.
\<close>

theorem acquire_retry_bound:
  assumes "source (config self) = Some s" "bounds (config self) = Some b"
      "resolution (config self) = Some r"
    and "t = path_join (cache_dir self) ''temp_rgb.tif''"
    and "v = path_join (cache_dir self) ''source.vrt''"
    and "W = CallWarp t v (acquisition_options b r)"
  shows "((\<forall>n. \<exists>e. snd (gdal_Warp E n t v (acquisition_options b r)) = Inl e \<and>
                 is_RuntimeError e \<and> is_network_glitch e) \<longrightarrow>
            effects (snd (acquire E self w)) =
              effects w @ [W, Sleep 10, W, Sleep 10, W, Sleep 10, W, Sleep 10, W] \<and>
            last (stdout (snd (acquire E self w))) = LogMaxRetries \<and>
            (\<exists>e. snd (gdal_Warp E (length (effects w) + 8) t v (acquisition_options b r)) = Inl e \<and>
                 is_RuntimeError e \<and> is_network_glitch e \<and>
                 fst (acquire E self w) = Inl e \<and>
                 run E self w = (Inl e, snd (acquire E self w)))) \<and>
         (\<forall>e. snd (gdal_Warp E (length (effects w)) t v (acquisition_options b r)) = Inl e \<and>
              \<not> (is_RuntimeError e \<and> is_network_glitch e) \<longrightarrow>
            effects (snd (acquire E self w)) = effects w @ [W] \<and>
            fst (acquire E self w) = Inl e \<and>
            run E self w = (Inl e, snd (acquire E self w)))"
proof (intro conjI impI allI)
  assume AG: "\<forall>n. \<exists>e. snd (gdal_Warp E n t v (acquisition_options b r)) = Inl e \<and>
                 is_RuntimeError e \<and> is_network_glitch e"
  note L = acquire_always_glitch [OF assms(1-5) AG, of w]
  show "effects (snd (acquire E self w)) =
          effects w @ [W, Sleep 10, W, Sleep 10, W, Sleep 10, W, Sleep 10, W]"
    unfolding L(1) assms(6) by (simp add: numeral_eq_Suc)
  show "last (stdout (snd (acquire E self w))) = LogMaxRetries"
    by (rule L(3))
  from L(2) obtain e where e: "fst (acquire E self w) = Inl e"
      "snd (gdal_Warp E (length (effects w) + 8) t v (acquisition_options b r)) = Inl e"
    by blast
  from AG e(2) have "is_RuntimeError e \<and> is_network_glitch e"
    by (metis Inl_inject)
  with e run_acquire_error [OF e(1)]
  show "\<exists>e. snd (gdal_Warp E (length (effects w) + 8) t v (acquisition_options b r)) = Inl e \<and>
                 is_RuntimeError e \<and> is_network_glitch e \<and>
                 fst (acquire E self w) = Inl e \<and>
                 run E self w = (Inl e, snd (acquire E self w))"
    by blast
next
  fix e
  assume a: "snd (gdal_Warp E (length (effects w)) t v (acquisition_options b r)) = Inl e \<and>
              \<not> (is_RuntimeError e \<and> is_network_glitch e)"
  then have ans: "snd (gdal_Warp E (length (effects w)) t v (acquisition_options b r)) = Inl e"
    and cls: "\<not> (is_RuntimeError e \<and> is_network_glitch e)"
    by simp_all
  note L = acquire_other_error [OF assms(1-5) ans cls]
  show "effects (snd (acquire E self w)) = effects w @ [W]"
    unfolding L(2) assms(6) ..
  show "fst (acquire E self w) = Inl e"
    by (rule L(1))
  show "run E self w = (Inl e, snd (acquire E self w))"
    by (rule run_acquire_error [OF L(1)])
qed

theorem acquire_retry_bound_witness:
  "effects (snd (acquire env_offline (new_opendem example_cfg) fresh_world)) =
     [CallWarp ''./cache/temp_rgb.tif'' ''./cache/source.vrt'' (acquisition_options [- 1, 50, 0, 51] 30),
      Sleep 10,
      CallWarp ''./cache/temp_rgb.tif'' ''./cache/source.vrt'' (acquisition_options [- 1, 50, 0, 51] 30),
      Sleep 10,
      CallWarp ''./cache/temp_rgb.tif'' ''./cache/source.vrt'' (acquisition_options [- 1, 50, 0, 51] 30),
      Sleep 10,
      CallWarp ''./cache/temp_rgb.tif'' ''./cache/source.vrt'' (acquisition_options [- 1, 50, 0, 51] 30),
      Sleep 10,
      CallWarp ''./cache/temp_rgb.tif'' ''./cache/source.vrt'' (acquisition_options [- 1, 50, 0, 51] 30)] \<and>
   fst (acquire env_offline (new_opendem example_cfg) fresh_world) =
     Inl (Exn ''RuntimeError'' ''Could not resolve host: s3.amazonaws.com'') \<and>
   effects (snd (acquire env_disk_full (new_opendem example_cfg) fresh_world)) =
     [CallWarp ''./cache/temp_rgb.tif'' ''./cache/source.vrt'' (acquisition_options [- 1, 50, 0, 51] 30)] \<and>
   fst (acquire env_disk_full (new_opendem example_cfg) fresh_world) =
     Inl (Exn ''RuntimeError'' ''No space left on device'')"
  using acquire_retry_bound
    [where self = "new_opendem example_cfg" and E = env_offline and w = fresh_world
       and s = "''https://s3.amazonaws.com/elevation-tiles-prod/terrarium/${z}/${x}/${y}.png''"
       and b = "[- 1, 50, 0, 51]" and r = 30
       and t = "''./cache/temp_rgb.tif''" and v = "''./cache/source.vrt''"
       and W = "CallWarp ''./cache/temp_rgb.tif'' ''./cache/source.vrt''
                  (acquisition_options [- 1, 50, 0, 51] 30)"]
    acquire_retry_bound
    [where self = "new_opendem example_cfg" and E = env_disk_full and w = fresh_world
       and s = "''https://s3.amazonaws.com/elevation-tiles-prod/terrarium/${z}/${x}/${y}.png''"
       and b = "[- 1, 50, 0, 51]" and r = 30
       and t = "''./cache/temp_rgb.tif''" and v = "''./cache/source.vrt''"
       and W = "CallWarp ''./cache/temp_rgb.tif'' ''./cache/source.vrt''
                  (acquisition_options [- 1, 50, 0, 51] 30)"]
  by (simp add: new_opendem_def example_cfg_def path_join_def env_offline_def env_disk_full_def
      env_online_def fresh_world_def glitch_offline glitch_disk is_RuntimeError_def)

lemma acquire_offline:
  "fst (acquire env_offline (new_opendem example_cfg) fresh_world) =
     Inl (Exn ''RuntimeError'' ''Could not resolve host: s3.amazonaws.com'')"
  using acquire_always_glitch(2)
    [where self = "new_opendem example_cfg" and E = env_offline and w = fresh_world
       and s = "''https://s3.amazonaws.com/elevation-tiles-prod/terrarium/${z}/${x}/${y}.png''"
       and b = "[- 1, 50, 0, 51]" and r = 30
       and t = "''./cache/temp_rgb.tif''" and v = "''./cache/source.vrt''"]
  by (simp add: new_opendem_def example_cfg_def path_join_def env_offline_def
      env_online_def fresh_world_def glitch_offline is_RuntimeError_def)

text \<open>
  C2 as stated names the class MaxRetriesExceeded. After the fifth network glitch the
  handler re-raises the exception it caught: what the acquisition step surfaces is the
  RuntimeError of the last warp.
\<close>

theorem retries_exhausted_is_RuntimeError:
  "raises_class ''RuntimeError'' (fst (acquire env_offline (new_opendem example_cfg) fresh_world)) \<and>
   \<not> raises_class ''MaxRetriesExceeded''
       (fst (acquire env_offline (new_opendem example_cfg) fresh_world))"
  by (simp add: acquire_offline raises_class_def)

subsection \<open>What reaches the warp call, and which exceptions end a run\<close>

lemma warp_calls_simps [simp]:
  "warp_calls (log_line ev w) = warp_calls w"
  "warp_calls (sleep n w) = warp_calls w"
  "warp_calls (write_file p a w) = warp_calls w"
  by (simp_all add: warp_calls_def)

lemma do_warp_warp_calls:
  "warp_calls (snd (do_warp E d s opts w)) = warp_calls w @ [(d, s, opts)]"
  by (simp add: warp_calls_def do_warp_effects)

lemma warp_loop_warp_calls:
  assumes cfg: "bounds (config self) = Some b" "resolution (config self) = Some r"
  shows "attempt + k = max_retries \<Longrightarrow>
     \<exists>n. warp_calls (snd (warp_loop E self t v attempt False w)) =
            warp_calls w @ replicate n (t, v, acquisition_options b r) \<and>
          (0 < k \<longrightarrow> 0 < n)"
proof (induction k arbitrary: attempt w)
  case 0
  then show ?case by (simp add: warp_loop_done)
next
  case (Suc k)
  then have att: "attempt < max_retries" by simp
  let ?w1 = "log_line (LogWarpAttempt (Suc attempt) max_retries) w"
  obtain x w2 where dw: "do_warp E t v (acquisition_options b r) ?w1 = (x, w2)"
    by (cases "do_warp E t v (acquisition_options b r) ?w1")
  have fr: "warp_calls w2 = warp_calls w @ [(t, v, acquisition_options b r)]"
    using do_warp_warp_calls [of E t v "acquisition_options b r" ?w1] dw by simp
  note unf = warp_loop_unfold [OF cfg att dw]
  show ?case
  proof (cases "\<exists>e. x = Inl e \<and> is_RuntimeError e \<and> is_network_glitch e \<and> Suc attempt < max_retries")
    case True
    then obtain e where e: "x = Inl e" "is_RuntimeError e" "is_network_glitch e"
        "Suc attempt < max_retries"
      by blast
    let ?w3 = "sleep 10 (log_line LogRetrying (log_line (LogNetworkGlitch e) w2))"
    have "Suc attempt + k = max_retries" using Suc.prems by simp
    from Suc.IH [OF this, of ?w3]
    obtain n where n: "warp_calls (snd (warp_loop E self t v (Suc attempt) False ?w3)) =
          warp_calls ?w3 @ replicate n (t, v, acquisition_options b r)"
      by blast
    have "warp_calls (snd (warp_loop E self t v (Suc attempt) False ?w3)) =
          warp_calls w @ replicate (Suc n) (t, v, acquisition_options b r)"
      using n fr by simp
    moreover have "warp_loop E self t v attempt False w =
        warp_loop E self t v (Suc attempt) False ?w3"
      unfolding unf using e by simp
    ultimately show ?thesis
      by (intro exI [of _ "Suc n"]) simp
  next
    case False
    then have "warp_calls (snd (warp_loop E self t v attempt False w)) = warp_calls w2 \<or>
        (\<exists>ev. warp_calls (snd (warp_loop E self t v attempt False w)) = warp_calls (log_line ev w2))"
      unfolding unf by (auto split: sum.splits)
    then have "warp_calls (snd (warp_loop E self t v attempt False w)) = warp_calls w2"
      by auto
    then show ?thesis
      by (intro exI [of _ "Suc 0"]) (simp add: fr)
  qed
qed

lemma warp_loop_origin:
  "attempt + k = max_retries \<Longrightarrow> fst (warp_loop E self t v attempt False w) = Inl e \<Longrightarrow>
   engine_raises E e \<or> exn_class e \<in> set own_classes"
proof (induction k arbitrary: attempt w)
  case 0
  then show ?case by (simp add: warp_loop_done)
next
  case (Suc k)
  then have att: "attempt < max_retries" by simp
  have IH: "engine_raises E e \<or> exn_class e \<in> set own_classes"
    if "fst (warp_loop E self t v (Suc attempt) False w') = Inl e" for w'
    using Suc.IH [of "Suc attempt" w'] Suc.prems(1) that by simp
  show ?case
    using Suc.prems(2)
    by (subst (asm) warp_loop.simps)
       (auto simp: att Let_def warp_loop_done own_classes_def
             split: option.splits sum.splits prod.splits if_splits
             dest: do_warp_error IH)
qed

lemma acquire_origin:
  assumes "fst (acquire E self w) = Inl e"
  shows "engine_raises E e \<or> exn_class e \<in> set own_classes"
proof (cases "source (config self)")
  case None
  then have "fst (acquire E self w) = Inl (Exn ''KeyError'' ''source'')"
    by (simp add: acquire_def generate_vrt_def Let_def)
  with assms show ?thesis
    by (auto simp: own_classes_def)
next
  case (Some s)
  from acquire_unfold [OF Some, of w E]
  obtain w1 where acq: "acquire E self w =
       (case warp_loop E self (path_join (cache_dir self) ''temp_rgb.tif'')
               (path_join (cache_dir self) ''source.vrt'') 0 False w1 of
          (Inl e, w2) \<Rightarrow> (Inl e, w2)
        | (Inr u, w2) \<Rightarrow> (Inr (path_join (cache_dir self) ''temp_rgb.tif''), w2))"
    by blast
  have "fst (warp_loop E self (path_join (cache_dir self) ''temp_rgb.tif'')
               (path_join (cache_dir self) ''source.vrt'') 0 False w1) = Inl e"
    using assms unfolding acquire_fst_snd(2) [OF acq] by (simp split: sum.splits)
  then show ?thesis
    by (rule warp_loop_origin [of 0 max_retries, simplified])
qed

lemma save_raster_keywords:
  "check_keywords ''_save_raster'' save_raster_params [''nodata'', ''dtype''] =
     Some (Exn ''TypeError''
       (''_save_raster() got an unexpected keyword argument '' @ [CHR 0x27] @ ''dtype'' @ [CHR 0x27]))"
  by (simp add: check_keywords_def save_raster_params_def)

lemma save_as_vector_origin:
  "save_as_vector E data ds out w = (Inl e, w') \<Longrightarrow> engine_raises E e"
  by (auto simp: save_as_vector_def Let_def split: sum.splits intro: raises_Polygonize)

lemma export_origin:
  "export E self fd nd ds w = (Inl e, w') \<Longrightarrow> engine_raises E e \<or> exn_class e \<in> set own_classes"
  by (auto simp: export_def Let_def save_raster_keywords own_classes_def
      split: option.splits sum.splits prod.splits if_splits
      dest: save_as_vector_origin)

lemma execute_process_origin:
  "execute_process E self dem w = (Inl e, w') \<Longrightarrow>
   engine_raises E e \<or> exn_class e \<in> set own_classes"
  unfolding execute_process_def Let_def
  by (auto simp: gdal_Open_def GetRasterBand_def own_classes_def
      split: option.splits sum.splits prod.splits if_splits artifact.splits
      dest: do_warp_error export_origin intro: raises_DEMProcessing)

lemma decode_and_process_origin:
  "decode_and_process E self t w = (Inl e, w') \<Longrightarrow>
   engine_raises E e \<or> exn_class e \<in> set own_classes"
  unfolding decode_and_process_def Let_def
  by (auto simp: gdal_Open_def GetRasterBand_def np_min_def np_max_def own_classes_def
      split: option.splits sum.splits list.splits if_splits artifact.splits
      dest: execute_process_origin)

lemma run_origin:
  assumes "fst (run E self w) = Inl e"
  shows "engine_raises E e \<or> exn_class e \<in> set own_classes"
proof (cases "fst (acquire E self w)")
  case (Inl e')
  from run_acquire_error [OF Inl] assms have "e' = e" by simp
  with Inl show ?thesis by (simp add: acquire_origin)
next
  case (Inr t)
  then have "run E self w = decode_and_process E self t (snd (acquire E self w))"
    by (cases "acquire E self w") (simp add: run_def)
  with assms obtain w' where
    "decode_and_process E self t (snd (acquire E self w)) = (Inl e, w')"
    by (cases "decode_and_process E self t (snd (acquire E self w))") simp
  then show ?thesis by (rule decode_and_process_origin)
qed

lemma acquire_warp_calls:
  assumes "source (config self) = Some s" "bounds (config self) = Some b"
      "resolution (config self) = Some r"
  shows "\<exists>n>0. warp_calls (snd (acquire E self w)) =
           warp_calls w @ replicate n (path_join (cache_dir self) ''temp_rgb.tif'',
                                      path_join (cache_dir self) ''source.vrt'',
                                      acquisition_options b r)"
proof -
  from acquire_unfold [OF assms(1), of w E]
  obtain w1 where w1: "effects w1 = effects w"
    and acq: "acquire E self w =
       (case warp_loop E self (path_join (cache_dir self) ''temp_rgb.tif'')
               (path_join (cache_dir self) ''source.vrt'') 0 False w1 of
          (Inl e, w2) \<Rightarrow> (Inl e, w2)
        | (Inr u, w2) \<Rightarrow> (Inr (path_join (cache_dir self) ''temp_rgb.tif''), w2))"
    by blast
  have w1': "warp_calls w1 = warp_calls w"
    using w1 by (simp add: warp_calls_def)
  have "0 + max_retries = max_retries" "0 < max_retries"
    by (simp_all add: max_retries_def)
  from warp_loop_warp_calls [OF assms(2,3) this(1), where w = w1] this(2)
  show ?thesis
    unfolding acquire_fst_snd(1) [OF acq] w1' by blast
qed

text \<open>
  C10. Take a configuration with \<^verbatim>\<open>source\<close>, \<^verbatim>\<open>bounds\<close> and \<^verbatim>\<open>resolution\<close>, whatever
  the bounds \<open>b\<close> and the resolution \<open>r\<close> are. The acquisition step makes at least one
  warp call, and each of its warp calls receives \<open>b\<close> as \<^verbatim>\<open>outputBounds\<close> and \<open>r\<close> as
  \<^verbatim>\<open>xRes\<close> and \<^verbatim>\<open>yRes\<close>, unchanged. An exception that ends the run was raised by a GDAL
  operation or is of one of the classes KeyError, RuntimeError, ValueError,
  AttributeError and TypeError: the pipeline itself raises no ConfigurationError.
\<close>

theorem bounds_resolution_unvalidated:
  assumes "source (config self) = Some s" "bounds (config self) = Some b"
      "resolution (config self) = Some r"
  shows "(\<exists>n>0. warp_calls (snd (acquire E self w)) =
            warp_calls w @ replicate n (path_join (cache_dir self) ''temp_rgb.tif'',
                                       path_join (cache_dir self) ''source.vrt'',
                                       acquisition_options b r)) \<and>
         outputBounds (acquisition_options b r) = Some b \<and>
         xRes (acquisition_options b r) = Some r \<and>
         yRes (acquisition_options b r) = Some r \<and>
         (\<forall>e. fst (run E self w) = Inl e \<longrightarrow>
              engine_raises E e \<or> exn_class e \<in> set own_classes) \<and>
         ''ConfigurationError'' \<notin> set own_classes"
  using acquire_warp_calls [OF assms] run_origin [of E self w]
  by (simp add: acquisition_options_def own_classes_def)

lemma env_online_never_raises: "\<not> engine_raises env_online e"
  by (auto elim!: engine_raises.cases simp: env_online_def)

theorem bounds_resolution_unvalidated_witness:
  "bounds (config (new_opendem bad_extent_cfg)) = Some [1, 51, 0, 50] \<and>
   resolution (config (new_opendem bad_extent_cfg)) = Some (- 30) \<and>
   warp_calls (snd (acquire env_online (new_opendem bad_extent_cfg) fresh_world)) \<noteq> [] \<and>
   outputBounds (acquisition_options [1, 51, 0, 50] (- 30)) = Some [1, 51, 0, 50] \<and>
   xRes (acquisition_options [1, 51, 0, 50] (- 30)) = Some (- 30) \<and>
   \<not> raises_class ''ConfigurationError'' (fst (run env_online (new_opendem bad_extent_cfg) fresh_world))"
  using bounds_resolution_unvalidated
    [where self = "new_opendem bad_extent_cfg" and E = env_online and w = fresh_world
       and s = "''https://s3.amazonaws.com/elevation-tiles-prod/terrarium/${z}/${x}/${y}.png''"
       and b = "[1, 51, 0, 50]" and r = "- 30"]
  by (auto simp: new_opendem_def bad_extent_cfg_def example_cfg_def env_online_never_raises
      raises_class_def split: sum.splits)

subsection \<open>The relay over a whole run\<close>

lemma progress_logged_simps [simp]:
  "progress_logged (log_line ev w) = progress_logged w @ progress_of ev"
  "progress_logged (sleep n w) = progress_logged w"
  "progress_logged (record_call c w) = progress_logged w"
  "progress_logged (write_file p a w) = progress_logged w"
  "progress_logged (w\<lparr>files := f\<rparr>) = progress_logged w"
  by (simp_all add: progress_logged_def log_line_def sleep_def record_call_def write_file_def)

lemma last_or_simps [simp]:
  "last_or (log_line ev w) = last_or w"
  "last_or (sleep n w) = last_or w"
  "last_or (record_call c w) = last_or w"
  "last_or (write_file p a w) = last_or w"
  "last_or (w\<lparr>files := f\<rparr>) = last_or w"
  by (simp_all add: last_or_def)

lemma fresh_world_relay [simp]:
  "last_gdal_p fresh_world = None" "last_or fresh_world = - 1" "progress_logged fresh_world = []"
  by (simp_all add: last_or_def progress_logged_def fresh_world_def)

lemma save_raster_relay [simp]:
  "progress_logged (save_raster d ds p n w) = progress_logged w"
  "last_or (save_raster d ds p n w) = last_or w"
  by (simp_all add: save_raster_def)

lemma last_or_cong: "last_gdal_p w2 = last_gdal_p w1 \<Longrightarrow> last_or w2 = last_or w1"
  by (simp add: last_or_def)

lemma progress_callback_logged:
  "progress_logged (snd (progress_callback c w)) =
     (if last_or w < percent_of c \<and> percent_of c mod 5 = 0
      then progress_logged w @ [percent_of c] else progress_logged w)"
  by (simp add: progress_logged_def progress_callback_stdout)

lemma evolves_trans:
  assumes "evolves P w1 w2" and "evolves P w w1"
  shows "evolves P w w2"
  using assms by (induction rule: evolves.induct) (auto intro: evolves.intros)

lemma evolves_log: "evolves P w w1 \<Longrightarrow> progress_of ev = [] \<Longrightarrow> evolves P w (log_line ev w1)"
  by (erule evolves_silent) simp_all

lemma evolves_sleep: "evolves P w w1 \<Longrightarrow> evolves P w (sleep n w1)"
  by (erule evolves_silent) simp_all

lemma evolves_record_call: "evolves P w w1 \<Longrightarrow> evolves P w (record_call c w1)"
  by (erule evolves_silent) simp_all

lemma evolves_write_file: "evolves P w w1 \<Longrightarrow> evolves P w (write_file p a w1)"
  by (erule evolves_silent) simp_all

lemma evolves_files: "evolves P w w1 \<Longrightarrow> evolves P w (w1\<lparr>files := f\<rparr>)"
  by (erule evolves_silent) simp_all

lemma evolves_report_progress:
  "\<forall>c \<in> set cs. P c \<Longrightarrow> evolves P w w1 \<Longrightarrow> evolves P w (report_progress cs w1)"
  by (induction cs arbitrary: w1) (auto intro: evolves_callback)

lemmas evolves_steps = evolves_log evolves_sleep evolves_record_call evolves_write_file
  evolves_files evolves_report_progress

lemma evolves_do_warp:
  assumes "callback opts \<longrightarrow> (\<forall>c \<in> set (fst (gdal_Warp E (length (effects w1)) dst src opts)). P c)"
    and "evolves P w w1"
  shows "evolves P w (snd (do_warp E dst src opts w1))"
  using assms by (auto simp: do_warp_def Let_def split: sum.splits intro!: evolves_steps)

lemma evolves_warp_loop_aux:
  assumes eng: "\<forall>n dst src opts. \<forall>c \<in> set (fst (gdal_Warp E n dst src opts)). P c"
  shows "attempt + k = max_retries \<Longrightarrow> evolves P w w1 \<Longrightarrow>
         evolves P w (snd (warp_loop E self t v attempt False w1))"
proof (induction k arbitrary: attempt w1)
  case 0
  then show ?case by (simp add: warp_loop_done)
next
  case (Suc k)
  then have att: "attempt < max_retries" by simp
  have IH: "evolves P w (snd (warp_loop E self t v (Suc attempt) False w'))" if "evolves P w w'" for w'
    using Suc.IH [of "Suc attempt" w'] Suc.prems(1) that by simp
  have dw: "evolves P w (snd (do_warp E t v opts w'))" if "evolves P w w'" for w' opts
    using evolves_do_warp [OF _ that] eng by blast
  show ?case
    using Suc.prems(2)
    by (subst warp_loop.simps)
       (auto simp: att Let_def warp_loop_done split: option.splits sum.splits prod.splits
             dest!: do_warp_snd intro!: evolves_steps IH dw)
qed

lemma evolves_warp_loop:
  assumes eng: "\<forall>n dst src opts. \<forall>c \<in> set (fst (gdal_Warp E n dst src opts)). P c"
    and "evolves P w w1"
  shows "evolves P w (snd (warp_loop E self t v 0 False w1))"
  using evolves_warp_loop_aux [OF eng _ assms(2), of 0 max_retries] by simp

lemma evolves_generate_vrt: "evolves P w w1 \<Longrightarrow> evolves P w (snd (generate_vrt E self w1))"
  by (auto simp: generate_vrt_def Let_def split: option.splits intro!: evolves_steps)

lemma generate_vrt_snd:
  "generate_vrt E self w1 = (x, w2) \<Longrightarrow> w2 = snd (generate_vrt E self w1)"
  by simp

lemma evolves_acquire:
  assumes eng: "\<forall>n dst src opts. \<forall>c \<in> set (fst (gdal_Warp E n dst src opts)). P c"
    and "evolves P w w1"
  shows "evolves P w (snd (acquire E self w1))"
  using assms(2)
  by (auto simp: acquire_def Let_def split: sum.splits prod.splits
      dest!: warp_loop_snd generate_vrt_snd
      intro!: evolves_warp_loop [OF eng] evolves_generate_vrt)

lemma evolves_save_as_vector:
  assumes "\<forall>bd. \<forall>c \<in> set (fst (gdal_Polygonize E bd)). P c"
    and "evolves P w w1"
  shows "evolves P w (snd (save_as_vector E data ds out w1))"
  using assms
  by (auto simp: save_as_vector_def Let_def split: sum.splits intro!: evolves_steps)

lemma save_as_vector_snd:
  "save_as_vector E data ds out w1 = (x, w2) \<Longrightarrow> w2 = snd (save_as_vector E data ds out w1)"
  by simp

lemma evolves_save_raster: "evolves P w w1 \<Longrightarrow> evolves P w (save_raster d ds p n w1)"
  by (simp add: save_raster_def evolves_write_file)

lemma evolves_export:
  assumes poly: "\<forall>bd. \<forall>c \<in> set (fst (gdal_Polygonize E bd)). P c"
    and "evolves P w w1"
  shows "evolves P w (snd (export E self fd nd ds w1))"
  using assms(2)
  by (auto simp: export_def Let_def split: option.splits sum.splits prod.splits
      dest!: save_as_vector_snd
      intro!: evolves_steps evolves_save_raster evolves_save_as_vector [OF poly])

lemma evolves_decide_mask: "evolves P w w1 \<Longrightarrow> evolves P w (snd (decide_mask m d w1))"
  by (auto simp: decide_mask_def intro!: evolves_steps)

lemma decide_mask_snd:
  "decide_mask m d w1 = (x, w2) \<Longrightarrow> w2 = snd (decide_mask m d w1)"
  by simp

lemma evolves_clip_warp:
  "callback opts = False \<Longrightarrow> evolves P w w1 \<Longrightarrow> evolves P w (snd (do_warp E d s opts w1))"
  by (rule evolves_do_warp) simp_all

lemma evolves_execute_process:
  assumes poly: "\<forall>bd. \<forall>c \<in> set (fst (gdal_Polygonize E bd)). P c"
    and "evolves P w w1"
  shows "evolves P w (snd (execute_process E self dem w1))"
  using assms(2)
  by (auto simp: execute_process_def Let_def split: option.splits sum.splits prod.splits if_splits
      dest!: do_warp_snd decide_mask_snd
      intro!: evolves_steps evolves_export [OF poly] evolves_decide_mask evolves_clip_warp)

lemma evolves_decode_and_process:
  assumes poly: "\<forall>bd. \<forall>c \<in> set (fst (gdal_Polygonize E bd)). P c"
    and "evolves P w w1"
  shows "evolves P w (snd (decode_and_process E self t w1))"
  using assms(2)
  by (auto simp: decode_and_process_def Let_def split: sum.splits
      intro!: evolves_steps evolves_execute_process [OF poly] evolves_save_raster)

lemma run_snd:
  "snd (run E self w) =
     (case fst (acquire E self w) of
        Inl e \<Rightarrow> snd (acquire E self w)
      | Inr t \<Rightarrow> snd (decode_and_process E self t (snd (acquire E self w))))"
  by (simp add: run_def split: prod.splits sum.splits)

lemma evolves_run_after_acquire:
  assumes "\<forall>bd. \<forall>c \<in> set (fst (gdal_Polygonize E bd)). P c"
  shows "evolves P (snd (acquire E self w)) (snd (run E self w))"
  unfolding run_snd
  by (auto split: sum.splits intro!: evolves_decode_and_process [OF assms] evolves_refl)

text \<open>The callback keeps the logged percentages increasing and below the attribute.\<close>

lemma relay_inv_callback:
  assumes "relay_inv w"
  shows "relay_inv (snd (progress_callback c w))"
proof -
  have old: "sorted_wrt (<) (progress_logged w)" "\<forall>p \<in> set (progress_logged w). p \<le> last_or w"
    using assms by (simp_all add: relay_inv_def list_all_iff)
  show ?thesis
    unfolding relay_inv_def progress_callback_logged progress_callback_last list_all_iff
    using old by (auto simp: sorted_wrt_append)
qed

lemma evolves_inv:
  "evolves P w w' \<Longrightarrow> relay_inv w \<Longrightarrow> relay_inv w' \<and> last_or w \<le> last_or w'"
proof (induction rule: evolves.induct)
  case evolves_refl
  then show ?case by simp
next
  case (evolves_silent w1 w2)
  have "last_or w2 = last_or w1"
    using evolves_silent(2) by (rule last_or_cong)
  with evolves_silent show ?case by (simp add: relay_inv_def)
next
  case (evolves_callback w1 c)
  then show ?case by (auto simp: relay_inv_callback progress_callback_last)
qed

text \<open>Once the attribute is at 100 or more, fractions of at most 1 change nothing.\<close>

lemma evolves_frozen:
  "evolves (\<lambda>c. c \<le> 1) w w' \<Longrightarrow> 100 \<le> last_or w \<Longrightarrow>
   progress_logged w' = progress_logged w \<and> last_or w' = last_or w"
proof (induction rule: evolves.induct)
  case evolves_refl
  then show ?case by simp
next
  case (evolves_silent w1 w2)
  have "last_or w2 = last_or w1"
    using evolves_silent(2) by (rule last_or_cong)
  with evolves_silent show ?case by simp
next
  case (evolves_callback w1 c)
  then have "percent_of c \<le> last_or w1" using percent_of_le_100 [of c] by simp
  with evolves_callback show ?case
    by (simp add: progress_callback_logged progress_callback_last)
qed

text \<open>
  C9, as the source has it. Run the pipeline on a new instance. The percentages that
  the relay logs over the whole run, acquisition and polygon extraction together, are
  strictly increasing, and the value of \<^verbatim>\<open>_last_gdal_p\<close> never decreases: it is set once
  and not reset. If the attribute has reached 100 when the acquisition step ends (as it
  has when 100% was logged there), and the polygon extraction reports only fractions of
  at most 1, then nothing more is logged after the acquisition step.
\<close>

theorem relay_state_never_reset:
  assumes "last_gdal_p w = None" and "progress_logged w = []"
  shows "sorted_wrt (<) (progress_logged (snd (run E self w))) \<and>
         last_or w \<le> last_or (snd (acquire E self w)) \<and>
         last_or (snd (acquire E self w)) \<le> last_or (snd (run E self w)) \<and>
         (100 \<in> set (progress_logged (snd (acquire E self w))) \<longrightarrow>
            100 \<le> last_or (snd (acquire E self w))) \<and>
         (100 \<le> last_or (snd (acquire E self w)) \<and>
          (\<forall>bd. \<forall>c \<in> set (fst (gdal_Polygonize E bd)). c \<le> 1) \<longrightarrow>
            progress_logged (snd (run E self w)) = progress_logged (snd (acquire E self w)))"
proof -
  have inv0: "relay_inv w"
    using assms by (simp add: relay_inv_def)
  have "evolves (\<lambda>c. True) w (snd (acquire E self w))"
    by (rule evolves_acquire) (simp_all add: evolves_refl)
  from evolves_inv [OF this inv0]
  have inv1: "relay_inv (snd (acquire E self w))"
    and mono1: "last_or w \<le> last_or (snd (acquire E self w))"
    by simp_all
  have "evolves (\<lambda>c. True) (snd (acquire E self w)) (snd (run E self w))"
    by (rule evolves_run_after_acquire) simp
  from evolves_inv [OF this inv1]
  have inv2: "relay_inv (snd (run E self w))"
    and mono2: "last_or (snd (acquire E self w)) \<le> last_or (snd (run E self w))"
    by simp_all
  have seen: "100 \<le> last_or (snd (acquire E self w))"
    if "100 \<in> set (progress_logged (snd (acquire E self w)))"
    using inv1 that by (auto simp: relay_inv_def list_all_iff)
  have frozen: "progress_logged (snd (run E self w)) = progress_logged (snd (acquire E self w))"
    if full: "100 \<le> last_or (snd (acquire E self w))"
      and poly: "\<forall>bd. \<forall>c \<in> set (fst (gdal_Polygonize E bd)). c \<le> 1"
    using evolves_frozen [OF evolves_run_after_acquire [of E "\<lambda>c. c \<le> 1", OF poly] full]
    by simp
  show ?thesis
    using inv2 mono1 mono2 seen frozen by (simp add: relay_inv_def)
qed

subsection \<open>The export\<close>

lemma gpkg_suffix: "is_gpkg ''result.gpkg''"
  by code_simp

lemma tif_suffix: "\<not> is_gpkg ''slope.tif''"
  by code_simp

text \<open>
  The vector branch has no guard: whatever grid arrives is written into the byte band
  and polygonized, and an exception can only come out of the polygon extraction.
\<close>

lemma export_vector_unguarded:
  assumes "output_name (config self) = Some out" "is_gpkg out"
    and "fst (export E self final_data current_nodata ds w) = Inl e"
  shows "engine_raises E e"
  using assms
  by (auto simp: export_def split: prod.splits sum.splits dest: save_as_vector_origin)

text \<open>The raster branch always ends in the TypeError of the call, and writes nothing.\<close>

lemma export_raster_TypeError:
  assumes "output_name (config self) = Some out" "\<not> is_gpkg out"
  shows "export E self final_data current_nodata ds w =
     (Inl (Exn ''TypeError''
        (''_save_raster() got an unexpected keyword argument '' @ [CHR 0x27] @ ''dtype'' @ [CHR 0x27])),
      log_line (LogExportRaster out) w)"
  using assms by (simp add: export_def Let_def save_raster_keywords)

subsection \<open>Runs of the example configurations\<close>

lemmas example_first_warp = warp_loop_first_success
  [where b = "[- 1, 50, 0, 51]" and r = 30 and cs = "[1/2, 1]" and ds = rgb_raster]

lemma acquire_online_gpkg:
  "last_or (snd (acquire env_online (new_opendem gpkg_cfg) fresh_world)) = 100 \<and>
   progress_logged (snd (acquire env_online (new_opendem gpkg_cfg) fresh_world)) = [50, 100]"
  by (simp add: acquire_def generate_vrt_def new_opendem_def gpkg_cfg_def example_cfg_def Let_def
      example_first_warp env_online_def
      progress_callback_logged progress_callback_last percent_of_half percent_of_one)

lemma acquire_overshoot_gpkg:
  "progress_logged (snd (acquire env_overshoot (new_opendem gpkg_cfg) fresh_world)) = [50, 100]"
  by (simp add: acquire_def generate_vrt_def new_opendem_def gpkg_cfg_def example_cfg_def Let_def
      example_first_warp env_overshoot_def env_online_def
      progress_callback_logged progress_callback_last percent_of_half percent_of_one)

lemma run_online_gpkg:
  "fst (run env_online (new_opendem gpkg_cfg) fresh_world) = Inr () \<and>
   last (effects (snd (run env_online (new_opendem gpkg_cfg) fresh_world))) =
     CallPolygonize (ByteBand [[5]]) \<and>
   files (snd (run env_online (new_opendem gpkg_cfg) fresh_world)) ''result.gpkg'' =
     Some (VectorFile \<lparr>layer_name = ''mask'', layer_srs = ''EPSG:3857'', field_name = ''dn'',
        features = [\<lparr>dn = 5, geometry = [(0, 0), (30, 0), (30, - 30), (0, - 30)]\<rparr>]\<rparr>)"
  apply (simp add: run_def acquire_def generate_vrt_def new_opendem_def gpkg_cfg_def example_cfg_def Let_def
      example_first_warp env_online_def)
  apply (simp add: decode_and_process_def gdal_Open_def Let_def rgb_raster_def GetRasterBand_def
      path_join_def decode_def arr_map_def arr_map2_def astype_float_def np_min_def np_max_def)
  apply (simp add: execute_process_def get_clipping_path_def truthy_str_def Let_def
      gdal_Open_def slope_raster_def GetRasterBand_def path_join_def decide_mask_def truthy_mask_def
      astype_float_def export_def gpkg_suffix save_as_vector_def write_byte_band_def arr_map_def
      save_raster_def)
  done

lemma run_overshoot_gpkg:
  "progress_logged (snd (run env_overshoot (new_opendem gpkg_cfg) fresh_world)) = [50, 100, 200]"
  apply (simp add: run_def acquire_def generate_vrt_def new_opendem_def gpkg_cfg_def example_cfg_def Let_def
      example_first_warp env_overshoot_def env_online_def)
  apply (simp add: decode_and_process_def gdal_Open_def Let_def rgb_raster_def GetRasterBand_def
      path_join_def decode_def arr_map_def arr_map2_def astype_float_def np_min_def np_max_def)
  apply (simp add: execute_process_def get_clipping_path_def truthy_str_def Let_def
      gdal_Open_def slope_raster_def GetRasterBand_def path_join_def decide_mask_def truthy_mask_def
      astype_float_def export_def gpkg_suffix save_as_vector_def write_byte_band_def arr_map_def
      progress_callback_logged progress_callback_last percent_of_half percent_of_one percent_of_two
      save_raster_def)
  done

lemma run_online_tif:
  "fst (run env_online (new_opendem example_cfg) fresh_world) =
     Inl (Exn ''TypeError''
       (''_save_raster() got an unexpected keyword argument '' @ [CHR 0x27] @ ''dtype'' @ [CHR 0x27])) \<and>
   files (snd (run env_online (new_opendem example_cfg) fresh_world)) ''slope.tif'' = None"
  apply (simp add: run_def acquire_def generate_vrt_def new_opendem_def example_cfg_def Let_def
      example_first_warp env_online_def)
  apply (simp add: decode_and_process_def gdal_Open_def Let_def rgb_raster_def GetRasterBand_def
      path_join_def decode_def arr_map_def arr_map2_def astype_float_def np_min_def np_max_def)
  apply (simp add: execute_process_def get_clipping_path_def truthy_str_def Let_def
      gdal_Open_def slope_raster_def GetRasterBand_def path_join_def decide_mask_def truthy_mask_def
      astype_float_def export_def tif_suffix save_raster_keywords save_raster_def)
  apply (simp add: fresh_world_def)
  done

lemma run_online_masked_tif:
  "fst (run env_online (new_opendem masked_cfg) fresh_world) =
     Inl (Exn ''TypeError''
       (''_save_raster() got an unexpected keyword argument '' @ [CHR 0x27] @ ''dtype'' @ [CHR 0x27])) \<and>
   files (snd (run env_online (new_opendem masked_cfg) fresh_world)) ''slope.tif'' = None"
  apply (simp add: run_def acquire_def generate_vrt_def new_opendem_def masked_cfg_def example_cfg_def Let_def
      example_first_warp env_online_def)
  apply (simp add: decode_and_process_def gdal_Open_def Let_def rgb_raster_def GetRasterBand_def
      path_join_def decode_def arr_map_def arr_map2_def astype_float_def np_min_def np_max_def)
  apply (simp add: execute_process_def get_clipping_path_def truthy_str_def Let_def
      gdal_Open_def slope_raster_def GetRasterBand_def path_join_def decide_mask_def truthy_mask_def
      astype_float_def export_def tif_suffix save_raster_keywords save_raster_def)
  apply (simp add: fresh_world_def)
  done

text \<open>
  C3. The example configuration with the output \<^verbatim>\<open>result.gpkg\<close> and no \<^verbatim>\<open>mask\<close>, on an
  engine whose slope raster has one pixel of value 5. The run raises nothing: the float
  grid is written into the byte band, polygon extraction is called on the byte 5, and
  the layer it returns, with \<open>dn = 5\<close>, is the file \<^verbatim>\<open>result.gpkg\<close>.
\<close>

theorem vector_export_without_mask:
  "mask (config (new_opendem gpkg_cfg)) = None \<and>
   fst (run env_online (new_opendem gpkg_cfg) fresh_world) = Inr () \<and>
   \<not> raises_class ''ProcessingError'' (fst (run env_online (new_opendem gpkg_cfg) fresh_world)) \<and>
   last (effects (snd (run env_online (new_opendem gpkg_cfg) fresh_world))) =
     CallPolygonize (ByteBand [[5]]) \<and>
   files (snd (run env_online (new_opendem gpkg_cfg) fresh_world)) ''result.gpkg'' =
     Some (VectorFile \<lparr>layer_name = ''mask'', layer_srs = ''EPSG:3857'', field_name = ''dn'',
        features = [\<lparr>dn = 5, geometry = [(0, 0), (30, 0), (30, - 30), (0, - 30)]\<rparr>]\<rparr>)"
  using run_online_gpkg
  by (simp add: raises_class_def new_opendem_def gpkg_cfg_def example_cfg_def)

text \<open>
  C4. The example configuration, whose output is \<^verbatim>\<open>slope.tif\<close>, without a mask and with
  the mask \<^verbatim>\<open>{min: 1}\<close>. In both cases the run ends with the TypeError of the call of
  \<^verbatim>\<open>_save_raster\<close> with the keyword \<^verbatim>\<open>dtype\<close>, and no file \<^verbatim>\<open>slope.tif\<close> exists
  afterwards.
\<close>

theorem raster_export_raises_TypeError:
  "fst (run env_online (new_opendem example_cfg) fresh_world) =
     Inl (Exn ''TypeError''
       (''_save_raster() got an unexpected keyword argument '' @ [CHR 0x27] @ ''dtype'' @ [CHR 0x27])) \<and>
   files (snd (run env_online (new_opendem example_cfg) fresh_world)) ''slope.tif'' = None \<and>
   fst (run env_online (new_opendem masked_cfg) fresh_world) =
     Inl (Exn ''TypeError''
       (''_save_raster() got an unexpected keyword argument '' @ [CHR 0x27] @ ''dtype'' @ [CHR 0x27])) \<and>
   files (snd (run env_online (new_opendem masked_cfg) fresh_world)) ''slope.tif'' = None"
  using run_online_tif run_online_masked_tif by simp

subsection \<open>The relay on the example runs\<close>

theorem relay_state_never_reset_witness:
  "last_gdal_p fresh_world = None \<and> progress_logged fresh_world = [] \<and>
   100 \<le> last_or (snd (acquire env_online (new_opendem gpkg_cfg) fresh_world)) \<and>
   sorted_wrt (<) (progress_logged (snd (run env_online (new_opendem gpkg_cfg) fresh_world))) \<and>
   progress_logged (snd (run env_online (new_opendem gpkg_cfg) fresh_world)) =
     progress_logged (snd (acquire env_online (new_opendem gpkg_cfg) fresh_world))"
  using relay_state_never_reset [of fresh_world env_online "new_opendem gpkg_cfg"]
    acquire_online_gpkg
  by (simp add: env_online_def)

text \<open>
  The last part of C9 as stated fails for an engine whose polygon extraction reports a
  fraction above 1: after the acquisition step has logged 100%, the fraction 2 of the
  extraction is logged as 200%.
\<close>

theorem overshoot_logged_after_full:
  "100 \<in> set (progress_logged (snd (acquire env_overshoot (new_opendem gpkg_cfg) fresh_world))) \<and>
   progress_logged (snd (run env_overshoot (new_opendem gpkg_cfg) fresh_world)) = [50, 100, 200]"
  by (simp add: acquire_overshoot_gpkg run_overshoot_gpkg)

end
